theory Spec2Isabelle
  imports Main "HOL-Library.Sublist"
begin

section \<open>JavaScript values used by the patch\<close>

text \<open>
  Strings are lists of 8-bit characters. A property that may be \<open>undefined\<close> (or
  \<open>null\<close>) is an option; \<open>None\<close> and the empty string are the falsy values that
  the operator \<open>||\<close> skips.
\<close>

definition truthy :: "string option \<Rightarrow> bool" where
  "truthy v = (case v of None \<Rightarrow> False | Some s \<Rightarrow> s \<noteq> [])"

definition js_or :: "string option \<Rightarrow> string option \<Rightarrow> string option" where
  "js_or a b = (if truthy a then a else b)"

definition js_or_default :: "string option \<Rightarrow> string \<Rightarrow> string" where
  "js_or_default a d = (case a of None \<Rightarrow> d | Some s \<Rightarrow> if s \<noteq> [] then s else d)"

definition is_ws :: "char \<Rightarrow> bool" where
  "is_ws c = (c \<in> set [CHR 0x09, CHR 0x0A, CHR 0x0B, CHR 0x0C, CHR 0x0D, CHR 0x20, CHR 0xA0])"

definition trim :: "string \<Rightarrow> string" where
  "trim s = rev (dropWhile is_ws (rev (dropWhile is_ws s)))"

definition startsWith :: "string \<Rightarrow> string \<Rightarrow> bool" where
  "startsWith row p = prefix p row"

fun split_from :: "string \<Rightarrow> string \<Rightarrow> string \<Rightarrow> string list" where
  "split_from sep acc [] = [rev acc]"
| "split_from [] acc (c # cs) = split_from [] (c # acc) cs"
| "split_from (s # ss) acc (c # cs) =
     (if prefix (s # ss) (c # cs)
      then rev acc # split_from (s # ss) [] (drop (length ss) cs)
      else split_from (s # ss) (c # acc) cs)"

definition js_split :: "string \<Rightarrow> string \<Rightarrow> string list" where
  "js_split sep str = (if sep = [] then map (\<lambda>c. [c]) str else split_from sep [] str)"

definition index_opt :: "'a list \<Rightarrow> nat \<Rightarrow> 'a option" where
  "index_opt xs i = (if i < length xs then Some (xs ! i) else None)"

section \<open>Language registry and toolbar\<close>

definition MERMAID_LANGUAGES :: "(string \<times> string) list" where
  "MERMAID_LANGUAGES =
    [(''plaintext'', ''Plain Text''),
     (''markdown'', ''Markdown''),
     (''mermaid'', ''Mermaid''),
     (''javascript'', ''Javascript''),
     (''typescript'', ''Typescript''),
     (''jsdoc'', ''JSDoc''),
     (''java'', ''Java''),
     (''python'', ''Python''),
     (''html'', ''HTML''),
     (''xml'', ''XML''),
     (''svg'', ''SVG''),
     (''json'', ''JSON''),
     (''css'', ''CSS''),
     (''sass'', ''SASS''),
     (''scss'', ''SCSS''),
     (''sql'', ''SQL''),
     (''diff'', ''Diff'')]"

text \<open>
  The toolbar object: the field the patch writes, and whatever else the host keeps in it.
  The host's own setup method is a parameter.
\<close>

record 'h toolbar =
  languages :: "(string \<times> string) list"
  toolbar_host :: 'h

definition CodeToolbar_setup :: "('h toolbar \<Rightarrow> 'h toolbar) \<Rightarrow> 'h toolbar \<Rightarrow> 'h toolbar" where
  "CodeToolbar_setup super_setup t = (super_setup t)\<lparr>languages := MERMAID_LANGUAGES\<rparr>"

section \<open>Theme adapter\<close>

text \<open>
  The ambient signals: \<open>document.documentElement.dataset.colorScheme\<close>,
  \<open>document.cookie\<close>, and the computed style of the root element
  (\<open>getPropertyValue\<close> gives the empty string for a property that is not set).
\<close>

record document =
  colorScheme :: "string option"
  cookie :: string
  getPropertyValue :: "string \<Rightarrow> string"

definition cookie_color_scheme :: "string \<Rightarrow> string option" where
  "cookie_color_scheme ck =
     (case find (\<lambda>row. startsWith row ''color_scheme='') (js_split ''; '' ck) of
        None \<Rightarrow> None
      | Some row \<Rightarrow> index_opt (js_split ''='' row) 1)"

definition getOdooTheme :: "document \<Rightarrow> string" where
  "getOdooTheme d =
     js_or_default (js_or (colorScheme d) (cookie_color_scheme (cookie d))) ''light''"

definition cssVar :: "document \<Rightarrow> string \<Rightarrow> string \<Rightarrow> string" where
  "cssVar d name fallback =
     (let v = trim (getPropertyValue d name) in if v \<noteq> [] then v else fallback)"

record theme_config =
  theme :: string
  themeVariables :: "(string \<times> string) list"

definition getMermaidThemeConfig :: "document \<Rightarrow> theme_config" where
  "getMermaidThemeConfig d =
     (let isDark = (getOdooTheme d = ''dark'');
          primary = cssVar d ''--o-brand-primary'' (if isDark then ''#4a90a4'' else ''#714B67'');
          textColor = cssVar d ''--o-main-text-color'' (if isDark then ''#e5e7eb'' else ''#374151'');
          bgColor = cssVar d ''--o-view-background-color'' (if isDark then ''#374151'' else ''#fff'')
      in \<lparr> theme = ''base'',
           themeVariables =
             (if isDark then
                [(''primaryColor'', primary),
                 (''primaryTextColor'', ''#fff''),
                 (''primaryBorderColor'', ''#5a6d7a''),
                 (''lineColor'', ''#8b9aa5''),
                 (''secondaryColor'', ''#3d4f5f''),
                 (''tertiaryColor'', ''#2d3e4a''),
                 (''background'', ''transparent''),
                 (''mainBkg'', bgColor),
                 (''secondBkg'', ''#2d3748''),
                 (''border1'', ''#4b5563''),
                 (''border2'', ''#6b7280''),
                 (''arrowheadColor'', ''#9ca3af''),
                 (''fontFamily'', ''inherit''),
                 (''fontSize'', ''14px''),
                 (''textColor'', textColor),
                 (''nodeTextColor'', ''#f3f4f6'')]
              else
                [(''primaryColor'', primary),
                 (''primaryTextColor'', ''#fff''),
                 (''primaryBorderColor'', ''#5a3d52''),
                 (''lineColor'', ''#6b7280''),
                 (''secondaryColor'', ''#f3e8ee''),
                 (''tertiaryColor'', ''#faf5f8''),
                 (''background'', ''transparent''),
                 (''mainBkg'', bgColor),
                 (''secondBkg'', ''#f9fafb''),
                 (''border1'', ''#e5e7eb''),
                 (''border2'', ''#d1d5db''),
                 (''arrowheadColor'', ''#374151''),
                 (''fontFamily'', ''inherit''),
                 (''fontSize'', ''14px''),
                 (''textColor'', textColor),
                 (''nodeTextColor'', ''#1f2937'')]) \<rparr>)"

section \<open>Dependency loader\<close>

text \<open>
  The two module-level variables, together with what the loader does to the outside:
  the URLs handed to \<open>import()\<close>, the loads still suspended at \<open>await import(...)\<close>,
  the lines written with \<open>console.error\<close>, and the calls made on the library.
  A promise created by the loader is identified by the number of the import behind it.
\<close>

text \<open>
  A handle stands for the object \<open>module.default\<close>. A failure is the object a rejected
  promise or a throwing call carries, with its \<open>message\<close> property; \<open>TypeError\<close> is the
  exception of a property access on \<open>undefined\<close> or \<open>null\<close>.
\<close>

type_synonym handle = nat

record failure =
  message :: "string option"

datatype thrown = TypeError | Thrown failure

text \<open>
  The argument of \<open>mermaid.initialize\<close>: the three fixed options and the spread theme
  configuration. The calls made on the library are kept in order.
\<close>

record init_config =
  startOnLoad :: bool
  securityLevel :: string
  suppressErrorRendering :: bool
  themeOptions :: theme_config

datatype lib_call = Initialize handle init_config | Render handle string string

record loader =
  mermaidModule :: "handle option"
  mermaidLoadingPromise :: "nat option"
  fetched :: "string list"
  pending :: "nat list"
  console_error :: "(string \<times> thrown) list"
  lib_calls :: "lib_call list"

definition MERMAID_CDN_URL :: string where
  "MERMAID_CDN_URL = ''https://cdn.jsdelivr.net/npm/mermaid@11/dist/mermaid.esm.min.mjs''"

text \<open>
  \<open>loadMermaid\<close> is an \<open>async\<close> function: what a call hands back is a promise in
  every case. \<open>Cached h\<close> is the promise that is fulfilled with the cached module from
  the start; \<open>InFlight p\<close> is one that follows the promise of the load in flight (the one
  found, or the one just started).
\<close>

datatype load_ret = Cached handle | InFlight nat

definition loadMermaid :: "loader \<Rightarrow> load_ret \<times> loader" where
  "loadMermaid g =
     (case mermaidModule g of
        Some h \<Rightarrow> (Cached h, g)
      | None \<Rightarrow>
          (case mermaidLoadingPromise g of
             Some p \<Rightarrow> (InFlight p, g)
           | None \<Rightarrow>
               (let p = length (fetched g)
                in (InFlight p,
                    g\<lparr>mermaidLoadingPromise := Some p,
                      fetched := fetched g @ [MERMAID_CDN_URL],
                      pending := pending g @ [p]\<rparr>))))"

text \<open>
  How the awaited import ends: rejected, or fulfilled with a module whose default export
  is the handle (or is missing), and whose \<open>initialize\<close> returns or throws.
\<close>

datatype import_outcome =
    ImportRejected failure
  | ImportFulfilled "handle option" "failure option"

definition load_failed :: "thrown \<Rightarrow> loader \<Rightarrow> handle option \<times> loader" where
  "load_failed e g =
     (None, g\<lparr>console_error := console_error g @ [(''Failed to load Mermaid:'', e)],
              mermaidLoadingPromise := None\<rparr>)"

definition initialize_options :: "document \<Rightarrow> init_config" where
  "initialize_options d =
     \<lparr> startOnLoad = False, securityLevel = ''strict'', suppressErrorRendering = True,
       themeOptions = getMermaidThemeConfig d \<rparr>"

text \<open>
  The body of the load after its \<open>await\<close>: the value the promise \<open>p\<close> resolves to, and
  the new state. The result \<open>None\<close> is the \<open>null\<close> of the catch block.
\<close>

definition loadMermaid_resume ::
    "nat \<Rightarrow> document \<Rightarrow> import_outcome \<Rightarrow> loader \<Rightarrow> handle option \<times> loader" where
  "loadMermaid_resume p d out g0 =
     (let g = g0\<lparr>pending := removeAll p (pending g0)\<rparr>
      in case out of
           ImportRejected e \<Rightarrow> load_failed (Thrown e) g
         | ImportFulfilled dflt ie \<Rightarrow>
             (let g1 = g\<lparr>mermaidModule := dflt\<rparr>
              in case dflt of
                   None \<Rightarrow> load_failed TypeError g1
                 | Some h \<Rightarrow>
                     (let g2 = g1\<lparr>lib_calls := lib_calls g1 @ [Initialize h (initialize_options d)]\<rparr>
                      in case ie of
                           None \<Rightarrow> (Some h, g2)
                         | Some e \<Rightarrow> load_failed (Thrown e) g2)))"

section \<open>The patched component\<close>

text \<open>
  \<open>embeddedState\<close> and \<open>props\<close> carry \<open>languageId\<close> and \<open>value\<close> (here
  \<open>data_value\<close>); the elements carry what the patch reads or writes: the value of the
  textarea, \<open>style.display\<close>, \<open>textContent\<close>, and for the container its class, style
  text, content and click listeners. A container element is identified by \<open>cid\<close>.
\<close>

record code_data =
  languageId :: "string option"
  data_value :: "string option"

record textarea_el =
  ta_value :: string
  ta_display :: string

record pre_el =
  pre_display :: string
  textContent :: string

record container_el =
  cid :: nat
  className :: string
  cssText :: string
  display :: string
  innerHTML :: string
  click_listeners :: nat

datatype node = PreNode | ContainerNode nat | OtherNode nat

text \<open>
  One component instance: \<open>embeddedState\<close>, \<open>props\<close>, \<open>textarea\<close>, \<open>pre\<close>,
  \<open>_mermaidContainer\<close>, the child list of the parent of \<open>pre\<close> (\<open>pre\<close> has a parent when
  \<open>PreNode\<close> is in the list), the number of container elements created so far (used as
  their identity), \<open>state.isActive\<close>, and the number of times \<open>openCodeToolbar\<close> ran
  (\<open>None\<close> for each of the last two when the component does not have it).
\<close>

record component =
  embeddedState :: "code_data option"
  props :: "code_data option"
  textarea :: "textarea_el option"
  pre :: "pre_el option"
  mermaidContainer :: "container_el option"
  children :: "node list"
  created :: nat
  isActive :: "bool option"
  toolbarOpened :: "nat option"

text \<open>
  The two \<open>||\<close> chains: \<open>this.embeddedState?.languageId || this.props?.languageId ||
  "plaintext"\<close> in \<open>highlight\<close>, and \<open>this.textarea?.value || this.embeddedState?.value
  || this.props?.value || ""\<close> in \<open>_renderMermaidDiagram\<close>.
\<close>

definition resolveLanguageId :: "component \<Rightarrow> string" where
  "resolveLanguageId c =
     js_or_default
       (js_or (Option.bind (embeddedState c) languageId) (Option.bind (props c) languageId))
       ''plaintext''"

definition resolveValue :: "component \<Rightarrow> string" where
  "resolveValue c =
     js_or_default
       (js_or (js_or (map_option ta_value (textarea c)) (Option.bind (embeddedState c) data_value))
              (Option.bind (props c) data_value))
       []"

text \<open>The clean-up block of \<open>highlight\<close>, run when the language is not \<open>mermaid\<close>.\<close>

definition cleanup :: "component \<Rightarrow> component" where
  "cleanup c =
     (case mermaidContainer c of
        None \<Rightarrow> c
      | Some k \<Rightarrow>
          c\<lparr>children := removeAll (ContainerNode (cid k)) (children c),
            mermaidContainer := None,
            pre := map_option (\<lambda>p. p\<lparr>pre_display := []\<rparr>) (pre c),
            textarea := map_option (\<lambda>t. t\<lparr>ta_display := []\<rparr>) (textarea c)\<rparr>)"

text \<open>
  \<open>parent.insertBefore(y, x.nextSibling)\<close> on the child list of the parent of \<open>x\<close>; the
  caller checks that \<open>x\<close> is in the list.
\<close>

fun insert_after :: "'a \<Rightarrow> 'a \<Rightarrow> 'a list \<Rightarrow> 'a list" where
  "insert_after x y [] = []"
| "insert_after x y (z # zs) = (if z = x then z # y # zs else z # insert_after x y zs)"

definition create_container :: "component \<Rightarrow> component" where
  "create_container c =
     c\<lparr>mermaidContainer :=
         Some \<lparr> cid = created c,
                className = ''o_mermaid_container'',
                cssText = ''display: flex; justify-content: center; padding: 1rem; cursor: pointer;'',
                display = ''flex'',
                innerHTML = [],
                click_listeners = 1 \<rparr>,
       created := Suc (created c),
       children :=
         (if pre c \<noteq> None \<and> PreNode \<in> set (children c)
          then insert_after PreNode (ContainerNode (created c)) (children c)
          else children c)\<rparr>"

definition show_diagram :: "component \<Rightarrow> component" where
  "show_diagram c =
     c\<lparr>pre := map_option (\<lambda>p. p\<lparr>pre_display := ''none''\<rparr>) (pre c),
       textarea := map_option (\<lambda>t. t\<lparr>ta_display := ''none''\<rparr>) (textarea c),
       mermaidContainer := map_option (\<lambda>k. k\<lparr>display := ''flex''\<rparr>) (mermaidContainer c)\<rparr>"

definition set_innerHTML :: "string \<Rightarrow> component \<Rightarrow> component" where
  "set_innerHTML h c = c\<lparr>mermaidContainer := map_option (\<lambda>k. k\<lparr>innerHTML := h\<rparr>) (mermaidContainer c)\<rparr>"

definition placeholder_html :: string where
  \<open>placeholder_html =
     ''<div style="color: #888; font-style: italic;">Enter Mermaid code to render diagram</div>''\<close>

definition error_html :: "string \<Rightarrow> string" where
  \<open>error_html msg =
     ''<div style="color: #dc3545; padding: 0.5rem;">'' @ [CHR 0x0A] @
     ''                <strong>Mermaid syntax error:</strong><br>'' @ [CHR 0x0A] @
     ''                <small>'' @ msg @ ''</small>'' @ [CHR 0x0A] @
     ''            </div>''\<close>

definition render_id :: "string \<Rightarrow> string \<Rightarrow> string" where
  "render_id now rnd = ''mermaid-'' @ now @ ''-'' @ rnd"

text \<open>
  \<open>_renderMermaidDiagram\<close> from the result of \<open>await loadMermaid()\<close> to its return or
  to the call of \<open>mermaid.render\<close>: the new component and, in the second case, the
  arguments of that call with the module it is made on.
\<close>

definition renderMermaidDiagram_loaded ::
    "handle option \<Rightarrow> string \<Rightarrow> component \<Rightarrow> component \<times> (handle \<times> string \<times> string) option" where
  "renderMermaidDiagram_loaded mermaid rid c =
     (case mermaid of
        None \<Rightarrow>
          (c\<lparr>pre := map_option (\<lambda>p. p\<lparr>textContent := ''Failed to load Mermaid library''\<rparr>) (pre c)\<rparr>,
           None)
      | Some h \<Rightarrow>
          (let v = resolveValue c;
               trimmedValue = trim v;
               c1 = (if mermaidContainer c = None then create_container c else c);
               c2 = show_diagram c1
           in if trimmedValue = [] then (set_innerHTML placeholder_html c2, None)
              else (c2, Some (h, rid, trimmedValue))))"

text \<open>
  How the awaited \<open>mermaid.render\<close> ends: fulfilled with an object whose \<open>svg\<close> is the
  markup, or rejected with some value: a failure object, or \<open>undefined\<close> or \<open>null\<close>
  (\<open>None\<close>).
\<close>

datatype render_outcome = Rendered string | RenderRejected "failure option"

text \<open>
  The rest of \<open>_renderMermaidDiagram\<close>, from the result of \<open>await mermaid.render(...)\<close>.
  Writing \<open>innerHTML\<close> on a container reference that is \<open>null\<close> by then throws, in the
  \<open>try\<close> block and again in the \<open>catch\<close> block, so the exception leaves the function.
  So does reading \<open>e.message\<close> in the \<open>catch\<close> block when the rejection value is
  \<open>undefined\<close> or \<open>null\<close>; nothing is written then.
\<close>

definition renderMermaidDiagram_rendered :: "render_outcome \<Rightarrow> component \<Rightarrow> thrown + component" where
  "renderMermaidDiagram_rendered out c =
     (case mermaidContainer c of
        None \<Rightarrow> Inl TypeError
      | Some k \<Rightarrow>
          (case out of
             Rendered svg \<Rightarrow> Inr (set_innerHTML svg c)
           | RenderRejected None \<Rightarrow> Inl TypeError
           | RenderRejected (Some e) \<Rightarrow>
               Inr (set_innerHTML (error_html (js_or_default (message e) ''Invalid syntax'')) c)))"

text \<open>The click listener of the container.\<close>

definition click :: "component \<Rightarrow> component" where
  "click c =
     (case mermaidContainer c of
        None \<Rightarrow> c
      | Some k \<Rightarrow>
          if click_listeners k = 0 then c
          else c\<lparr>isActive := map_option (\<lambda>_. True) (isActive c),
                 toolbarOpened := map_option Suc (toolbarOpened c)\<rparr>)"

section \<open>The event loop\<close>

text \<open>
  The run-time state: the loader's variables, the ambient document, the component, the
  calls of \<open>_renderMermaidDiagram\<close> suspended at \<open>await loadMermaid()\<close> (each with what
  it waits for) and at \<open>await mermaid.render(...)\<close>, and the exceptions that left an
  asynchronous call nobody awaits.
\<close>

datatype load_wait = Ready "handle option" | OnPromise nat

record sys =
  globals :: loader
  doc :: document
  this :: component
  awaiting_load :: "load_wait list"
  awaiting_render :: "(handle \<times> string \<times> string) list"
  unhandled :: "thrown list"

definition wait_for :: "load_ret \<Rightarrow> load_wait" where
  "wait_for r = (case r of Cached h \<Rightarrow> Ready (Some h) | InFlight p \<Rightarrow> OnPromise p)"

definition wake :: "nat \<Rightarrow> handle option \<Rightarrow> load_wait \<Rightarrow> load_wait" where
  "wake p v w = (case w of Ready x \<Rightarrow> Ready x | OnPromise q \<Rightarrow> if q = p then Ready v else OnPromise q)"

definition remove_at :: "nat \<Rightarrow> 'a list \<Rightarrow> 'a list" where
  "remove_at i xs = take i xs @ drop (Suc i) xs"

text \<open>\<open>_renderMermaidDiagram\<close> up to its first \<open>await\<close>: the loader is called.\<close>

definition renderMermaidDiagram_start :: "sys \<Rightarrow> sys" where
  "renderMermaidDiagram_start s =
     (let (r, g) = loadMermaid (globals s)
      in s\<lparr>globals := g, awaiting_load := awaiting_load s @ [wait_for r]\<rparr>)"

text \<open>The patched \<open>highlight\<close>; \<open>super_highlight\<close> is the host's own method.\<close>

definition highlight :: "(bool \<Rightarrow> component \<Rightarrow> component) \<Rightarrow> bool \<Rightarrow> sys \<Rightarrow> sys" where
  "highlight super_highlight focus s =
     (if resolveLanguageId (this s) = ''mermaid'' then renderMermaidDiagram_start s
      else s\<lparr>this := super_highlight focus (cleanup (this s))\<rparr>)"

text \<open>
  What can happen next: the host calls \<open>highlight\<close>; the host or the user changes the
  embedded state, the props, the text or the ambient document; the import of a suspended
  load settles; a suspended render whose loader result is there goes on (with the time and
  random text its id is made of); a \<open>mermaid.render\<close> call settles; the container is
  clicked. An event that cannot happen in a state leaves it as it is.
\<close>

datatype event =
    Highlight bool
  | SetEmbeddedState "code_data option"
  | SetProps "code_data option"
  | Input string
  | SetDocument document
  | ImportSettled nat import_outcome
  | LoadResumed nat string string
  | RenderSettled nat render_outcome
  | Click

definition import_settled :: "nat \<Rightarrow> import_outcome \<Rightarrow> sys \<Rightarrow> sys" where
  "import_settled p out s =
     (if p \<in> set (pending (globals s))
      then (let (v, g) = loadMermaid_resume p (doc s) out (globals s)
            in s\<lparr>globals := g, awaiting_load := map (wake p v) (awaiting_load s)\<rparr>)
      else s)"

definition load_resumed :: "nat \<Rightarrow> string \<Rightarrow> string \<Rightarrow> sys \<Rightarrow> sys" where
  "load_resumed i now rnd s =
     (if i < length (awaiting_load s)
      then (case awaiting_load s ! i of
              OnPromise p \<Rightarrow> s
            | Ready v \<Rightarrow>
                (let (c, req) = renderMermaidDiagram_loaded v (render_id now rnd) (this s);
                     s1 = s\<lparr>this := c, awaiting_load := remove_at i (awaiting_load s)\<rparr>
                 in case req of
                      None \<Rightarrow> s1
                    | Some (h, rid, content) \<Rightarrow>
                        s1\<lparr>globals := (globals s)\<lparr>lib_calls := lib_calls (globals s) @ [Render h rid content]\<rparr>,
                           awaiting_render := awaiting_render s @ [(h, rid, content)]\<rparr>))
      else s)"

definition render_settled :: "nat \<Rightarrow> render_outcome \<Rightarrow> sys \<Rightarrow> sys" where
  "render_settled i out s =
     (if i < length (awaiting_render s)
      then (let s1 = s\<lparr>awaiting_render := remove_at i (awaiting_render s)\<rparr>
            in case renderMermaidDiagram_rendered out (this s) of
                 Inl e \<Rightarrow> s1\<lparr>unhandled := unhandled s @ [e]\<rparr>
               | Inr c \<Rightarrow> s1\<lparr>this := c\<rparr>)
      else s)"

fun step :: "(bool \<Rightarrow> component \<Rightarrow> component) \<Rightarrow> event \<Rightarrow> sys \<Rightarrow> sys" where
  "step host (Highlight focus) s = highlight host focus s"
| "step host (SetEmbeddedState e) s = s\<lparr>this := (this s)\<lparr>embeddedState := e\<rparr>\<rparr>"
| "step host (SetProps e) s = s\<lparr>this := (this s)\<lparr>props := e\<rparr>\<rparr>"
| "step host (Input v) s =
     s\<lparr>this := (this s)\<lparr>textarea := map_option (\<lambda>t. t\<lparr>ta_value := v\<rparr>) (textarea (this s))\<rparr>\<rparr>"
| "step host (SetDocument d) s = s\<lparr>doc := d\<rparr>"
| "step host (ImportSettled p out) s = import_settled p out s"
| "step host (LoadResumed i now rnd) s = load_resumed i now rnd s"
| "step host (RenderSettled i out) s = render_settled i out s"
| "step host Click s = s\<lparr>this := click (this s)\<rparr>"

fun run :: "(bool \<Rightarrow> component \<Rightarrow> component) \<Rightarrow> event list \<Rightarrow> sys \<Rightarrow> sys" where
  "run host [] s = s"
| "run host (ev # evs) s = run host evs (step host ev s)"

text \<open>
  The state before anything has happened: nothing loaded, nothing in flight, no container,
  nothing suspended.
\<close>

definition loader0 :: loader where
  "loader0 = \<lparr> mermaidModule = None, mermaidLoadingPromise = None, fetched = [], pending = [],
               console_error = [], lib_calls = [] \<rparr>"

fun is_container :: "node \<Rightarrow> bool" where
  "is_container (ContainerNode n) = True"
| "is_container PreNode = False"
| "is_container (OtherNode n) = False"

definition containers :: "node list \<Rightarrow> node list" where
  "containers ns = filter is_container ns"

definition fresh :: "component \<Rightarrow> bool" where
  "fresh c = (mermaidContainer c = None \<and> containers (children c) = [])"

definition initial :: "document \<Rightarrow> component \<Rightarrow> sys" where
  "initial d c = \<lparr> globals = loader0, doc = d, this = c, awaiting_load = [], awaiting_render = [],
                   unhandled = [] \<rparr>"

section \<open>Invariants\<close>

text \<open>
  The loader: at most one load is suspended; while one is, no module is cached and the
  in-flight marker is its promise; and while no module is cached, a marker that is set is
  the promise of a suspended load.
\<close>

definition loader_inv :: "loader \<Rightarrow> bool" where
  "loader_inv g =
     (length (pending g) \<le> 1
      \<and> (\<forall>p \<in> set (pending g). mermaidModule g = None \<and> mermaidLoadingPromise g = Some p)
      \<and> (mermaidModule g = None \<longrightarrow> set_option (mermaidLoadingPromise g) \<subseteq> set (pending g)))"

fun waits_on :: "load_wait \<Rightarrow> nat list" where
  "waits_on (Ready v) = []"
| "waits_on (OnPromise q) = [q]"

definition sys_inv :: "sys \<Rightarrow> bool" where
  "sys_inv s =
     (loader_inv (globals s)
      \<and> (\<forall>w \<in> set (awaiting_load s). set (waits_on w) \<subseteq> set (pending (globals s))))"

text \<open>
  The component: every container node in the child list is the node of the container
  the component refers to.
\<close>

definition one_container :: "component \<Rightarrow> bool" where
  "one_container c =
     (case mermaidContainer c of
        None \<Rightarrow> containers (children c) = []
      | Some k \<Rightarrow> containers (children c) = [ContainerNode (cid k)] \<or> containers (children c) = [])"

text \<open>The theme the library works with: the one of the last \<open>initialize\<close> call it received.\<close>

fun library_theme :: "lib_call list \<Rightarrow> theme_config option" where
  "library_theme [] = None"
| "library_theme (Initialize h cfg # cs) =
     (case library_theme cs of None \<Rightarrow> Some (themeOptions cfg) | Some t \<Rightarrow> Some t)"
| "library_theme (Render h rid content # cs) = library_theme cs"

fun is_settle :: "event \<Rightarrow> bool" where
  "is_settle (ImportSettled p out) = True"
| "is_settle ev = False"

text \<open>
  Diagram mode: while the component refers to a container, \<open>pre\<close> and the textarea (each
  where it exists) have display \<open>none\<close>.
\<close>

definition source_hidden :: "component \<Rightarrow> bool" where
  "source_hidden c =
     ((case pre c of None \<Rightarrow> True | Some p \<Rightarrow> pre_display p = ''none'')
      \<and> (case textarea c of None \<Rightarrow> True | Some t \<Rightarrow> ta_display t = ''none''))"

definition diagram_mode :: "component \<Rightarrow> bool" where
  "diagram_mode c = (case mermaidContainer c of None \<Rightarrow> True | Some k \<Rightarrow> source_hidden c)"

text \<open>
  The text of \<open>document.cookie\<close> for a list of cookies, each written \<open>name=value\<close>: the
  rows joined with a semicolon and a space.
\<close>

fun cookie_string :: "string list \<Rightarrow> string" where
  "cookie_string [] = []"
| "cookie_string [r] = r"
| "cookie_string (r # r' # rs) = r @ ''; '' @ cookie_string (r' # rs)"

section \<open>Example inputs\<close>

definition light_doc :: document where
  "light_doc = \<lparr> colorScheme = None, cookie = ''tz=UTC; color_scheme=light'',
                 getPropertyValue = (\<lambda>n. []) \<rparr>"

definition dark_doc :: document where
  "dark_doc = \<lparr> colorScheme = Some ''dark'', cookie = [],
                getPropertyValue = (\<lambda>n. if n = ''--o-brand-primary'' then '' #123456'' else []) \<rparr>"

definition diagram_block :: component where
  "diagram_block =
     \<lparr> embeddedState = Some \<lparr> languageId = Some [], data_value = Some ''graph TD; A-->B'' \<rparr>,
       props = Some \<lparr> languageId = Some ''mermaid'', data_value = None \<rparr>,
       textarea = Some \<lparr> ta_value = [], ta_display = [] \<rparr>,
       pre = Some \<lparr> pre_display = [], textContent = [] \<rparr>,
       mermaidContainer = None, children = [OtherNode 0, PreNode, OtherNode 1], created = 0,
       isActive = Some False, toolbarOpened = Some 0 \<rparr>"

definition host_plain :: "bool \<Rightarrow> component \<Rightarrow> component" where
  "host_plain focus c = c\<lparr>pre := map_option (\<lambda>p. p\<lparr>textContent := resolveValue c\<rparr>) (pre c)\<rparr>"

definition switched_block :: component where
  "switched_block =
     \<lparr> embeddedState = Some \<lparr> languageId = Some ''plaintext'', data_value = Some ''graph TD; A-->B'' \<rparr>,
       props = None,
       textarea = Some \<lparr> ta_value = ''graph TD; A-->B'', ta_display = ''none'' \<rparr>,
       pre = Some \<lparr> pre_display = ''none'', textContent = [] \<rparr>,
       mermaidContainer =
         Some \<lparr> cid = 0, className = ''o_mermaid_container'',
                cssText = ''display: flex; justify-content: center; padding: 1rem; cursor: pointer;'',
                display = ''flex'', innerHTML = ''<svg></svg>'', click_listeners = 1 \<rparr>,
       children = [OtherNode 0, PreNode, ContainerNode 0, OtherNode 1], created = 1,
       isActive = Some False, toolbarOpened = Some 0 \<rparr>"

definition blank_block :: component where
  "blank_block =
     \<lparr> embeddedState = Some \<lparr> languageId = Some ''mermaid'', data_value = Some [] \<rparr>,
       props = None,
       textarea = Some \<lparr> ta_value = ''  '', ta_display = [] \<rparr>,
       pre = Some \<lparr> pre_display = [], textContent = [] \<rparr>,
       mermaidContainer = None, children = [PreNode], created = 0,
       isActive = None, toolbarOpened = None \<rparr>"

definition render_pending_events :: "event list" where
  "render_pending_events =
     [Highlight False,
      ImportSettled 0 (ImportFulfilled (Some 7) None),
      LoadResumed 0 ''1700000000000'' ''k3j9x2a'']"

definition first_render_events :: "event list" where
  "first_render_events = render_pending_events @ [RenderSettled 0 (Rendered ''<svg></svg>'')]"

definition session_events :: "event list" where
  "session_events =
     first_render_events @
     [Highlight False,
      LoadResumed 0 ''1700000000001'' ''q8w2e4r'']"

definition theme_change_events :: "event list" where
  "theme_change_events =
     first_render_events @
     [SetDocument dark_doc,
      Highlight False,
      LoadResumed 0 ''1700000000001'' ''q8w2e4r'']"

definition failed_load_events :: "event list" where
  "failed_load_events =
     [Highlight False,
      ImportSettled 0 (ImportRejected \<lparr>message = Some ''Failed to fetch''\<rparr>),
      LoadResumed 0 ''1700000000000'' ''k3j9x2a'']"

definition switch_away_events :: "event list" where
  "switch_away_events =
     session_events @
     [SetEmbeddedState (Some \<lparr> languageId = Some ''plaintext'', data_value = Some ''graph TD; A-->B'' \<rparr>),
      Highlight True]"

definition cookie_dark_doc :: document where
  "cookie_dark_doc = \<lparr> colorScheme = None, cookie = ''tz=UTC; color_scheme=dark; cids=1'',
                       getPropertyValue = (\<lambda>n. []) \<rparr>"

definition no_signal_doc :: document where
  "no_signal_doc = \<lparr> colorScheme = None, cookie = ''tz=UTC; cids=1'', getPropertyValue = (\<lambda>n. []) \<rparr>"

definition stale_reject_events :: "event list" where
  "stale_reject_events =
     render_pending_events @
     [SetEmbeddedState (Some \<lparr> languageId = Some ''plaintext'', data_value = Some ''graph TD; A-->B'' \<rparr>),
      Highlight True,
      RenderSettled 0 (RenderRejected (Some \<lparr>message = Some ''Parse error on line 1''\<rparr>))]"

definition nullish_reject_events :: "event list" where
  "nullish_reject_events = render_pending_events @ [RenderSettled 0 (RenderRejected None)]"

section \<open>Evaluating concrete runs\<close>

text \<open>The definitions a concrete run unfolds.\<close>

lemmas eval_defs =
  initial_def loader0_def highlight_def
  renderMermaidDiagram_start_def loadMermaid_def wait_for_def import_settled_def
  loadMermaid_resume_def load_failed_def wake_def load_resumed_def renderMermaidDiagram_loaded_def
  render_settled_def renderMermaidDiagram_rendered_def remove_at_def Let_def
  create_container_def show_diagram_def set_innerHTML_def cleanup_def host_plain_def
  resolveLanguageId_def resolveValue_def js_or_def js_or_default_def
  truthy_def trim_def is_ws_def render_id_def

section \<open>Language registry\<close>

text \<open>
  C9. After the patched toolbar setup, whatever the host's own setup did, the toolbar's
  languages are the fixed registry. Its identifiers are pairwise different; the diagram
  language \<open>mermaid\<close> is among them, third in display order, next to the sixteen other
  identifiers of the registry.
\<close>

theorem toolbar_languages_registry:
  "languages (CodeToolbar_setup super_setup t) = MERMAID_LANGUAGES
   \<and> distinct (map fst MERMAID_LANGUAGES)
   \<and> map_of MERMAID_LANGUAGES ''mermaid'' = Some ''Mermaid''
   \<and> map fst MERMAID_LANGUAGES =
       [''plaintext'', ''markdown'', ''mermaid'', ''javascript'', ''typescript'', ''jsdoc'', ''java'',
        ''python'', ''html'', ''xml'', ''svg'', ''json'', ''css'', ''sass'', ''scss'', ''sql'', ''diff'']"
  by (simp add: CodeToolbar_setup_def MERMAID_LANGUAGES_def)

section \<open>Theme derivation\<close>

lemma cookie_color_scheme_example:
  "cookie_color_scheme ''a=1; color_scheme=dark; b=2'' = Some ''dark''"
  "cookie_color_scheme ''a=1; b=2'' = None"
  "cookie_color_scheme ''color_scheme='' = Some []"
  by (simp_all add: cookie_color_scheme_def js_split_def startsWith_def index_opt_def)

lemma getOdooTheme_example:
  "getOdooTheme \<lparr> colorScheme = None, cookie = ''a=1; color_scheme=dark; b=2'', getPropertyValue = f \<rparr> = ''dark''"
  "getOdooTheme \<lparr> colorScheme = Some ''light'', cookie = ''color_scheme=dark'', getPropertyValue = f \<rparr> = ''light''"
  "getOdooTheme \<lparr> colorScheme = Some [], cookie = ''color_scheme='', getPropertyValue = f \<rparr> = ''light''"
  by (simp_all add: getOdooTheme_def cookie_color_scheme_def js_split_def startsWith_def index_opt_def
        js_or_def js_or_default_def truthy_def)

lemma split_from_skip:
  "s \<notin> set r \<Longrightarrow> split_from (s # ss) acc (r @ rest) = split_from (s # ss) (rev r @ acc) rest"
  by (induction r arbitrary: acc) auto

lemma split_cookie_string:
  assumes "\<forall>row \<in> set rows. CHR '';'' \<notin> set row"
  shows "split_from ''; '' [] (cookie_string rows) = (if rows = [] then [[]] else rows)"
  using assms
proof (induction rows rule: cookie_string.induct)
  case 1
  then show ?case by simp
next
  case (2 r)
  then show ?case
    using split_from_skip [of "CHR '';''" r "'' ''" "[]" "[]"] by simp
next
  case (3 r r' rs)
  have "split_from ''; '' [] (r @ ''; '' @ cookie_string (r' # rs)) =
        split_from ''; '' (rev r) (''; '' @ cookie_string (r' # rs))"
    using 3 split_from_skip [of "CHR '';''" r "'' ''" "[]" "''; '' @ cookie_string (r' # rs)"] by simp
  also have "\<dots> = r # split_from ''; '' [] (cookie_string (r' # rs))"
    by simp
  finally show ?case
    using 3 by simp
qed

lemma split_eq_head:
  "\<exists>rest. split_from ''='' acc v = (rev acc @ takeWhile (\<lambda>c. c \<noteq> CHR ''='') v) # rest"
proof (induction v arbitrary: acc)
  case Nil
  then show ?case by simp
next
  case (Cons a v)
  show ?case
  proof (cases "a = CHR ''=''")
    case True
    then show ?thesis by simp
  next
    case False
    then show ?thesis
      using Cons [of "a # acc"] by auto
  qed
qed

lemma cookie_row_value:
  assumes "prefix ''color_scheme='' row"
  shows "index_opt (js_split ''='' row) 1 = Some (takeWhile (\<lambda>c. c \<noteq> CHR ''='') (drop 13 row))"
proof -
  obtain v where row: "row = ''color_scheme='' @ v"
    using assms by (auto simp: prefix_def)
  obtain rest where "split_from ''='' [] v = takeWhile (\<lambda>c. c \<noteq> CHR ''='') v # rest"
    using split_eq_head [of "[]" v] by auto
  then show ?thesis
    by (simp add: row js_split_def index_opt_def)
qed

lemma cookie_color_scheme_rows:
  assumes "\<forall>row \<in> set rows. CHR '';'' \<notin> set row"
  shows "cookie_color_scheme (cookie_string rows) =
           (case find (\<lambda>row. prefix ''color_scheme='' row) rows of
              None \<Rightarrow> None
            | Some row \<Rightarrow> Some (takeWhile (\<lambda>c. c \<noteq> CHR ''='') (drop 13 row)))"
proof (cases "rows = []")
  case True
  then show ?thesis
    by (simp add: cookie_color_scheme_def js_split_def startsWith_def)
next
  case False
  have s: "js_split ''; '' (cookie_string rows) = rows"
    using split_cookie_string [OF assms] False by (simp add: js_split_def)
  show ?thesis
  proof (cases "find (\<lambda>row. prefix ''color_scheme='' row) rows")
    case None
    then show ?thesis by (simp add: cookie_color_scheme_def s startsWith_def)
  next
    case (Some row)
    then have "prefix ''color_scheme='' row"
      by (auto simp: find_Some_iff)
    then show ?thesis
      using Some cookie_row_value by (simp add: cookie_color_scheme_def s startsWith_def)
  qed
qed

text \<open>
  C7. The mode is the root's color-scheme attribute when it is set and not empty, else
  the value of the \<open>color_scheme\<close> cookie when there is one and it is not empty, else
  \<open>light\<close>. For every cookie text made of rows without a semicolon, that value is what
  follows \<open>color_scheme=\<close> in the first row that starts with it, read up to a further
  \<open>=\<close> if the row has one (so the whole value when it has none); there is none when no row
  starts so. Each of the three theme-driven variables (brand, text and background colour)
  is the computed custom property, trimmed, when that is not empty, in either mode; otherwise
  it is the fixed default of the mode, the dark one exactly when the mode is \<open>dark\<close>.
\<close>

theorem theme_derivation:
  "getOdooTheme d =
     (if truthy (colorScheme d) then the (colorScheme d)
      else if truthy (cookie_color_scheme (cookie d)) then the (cookie_color_scheme (cookie d))
      else ''light'')
   \<and> (\<forall>rows. (\<forall>row \<in> set rows. CHR '';'' \<notin> set row) \<longrightarrow>
         cookie_color_scheme (cookie_string rows) =
           (case find (\<lambda>row. prefix ''color_scheme='' row) rows of
              None \<Rightarrow> None
            | Some row \<Rightarrow> Some (takeWhile (\<lambda>c. c \<noteq> CHR ''='') (drop 13 row))))
   \<and> map_of (themeVariables (getMermaidThemeConfig d)) ''primaryColor'' =
       Some (if trim (getPropertyValue d ''--o-brand-primary'') \<noteq> []
             then trim (getPropertyValue d ''--o-brand-primary'')
             else if getOdooTheme d = ''dark'' then ''#4a90a4'' else ''#714B67'')
   \<and> map_of (themeVariables (getMermaidThemeConfig d)) ''textColor'' =
       Some (if trim (getPropertyValue d ''--o-main-text-color'') \<noteq> []
             then trim (getPropertyValue d ''--o-main-text-color'')
             else if getOdooTheme d = ''dark'' then ''#e5e7eb'' else ''#374151'')
   \<and> map_of (themeVariables (getMermaidThemeConfig d)) ''mainBkg'' =
       Some (if trim (getPropertyValue d ''--o-view-background-color'') \<noteq> []
             then trim (getPropertyValue d ''--o-view-background-color'')
             else if getOdooTheme d = ''dark'' then ''#374151'' else ''#fff'')"
proof -
  have t: "getOdooTheme d =
     (if truthy (colorScheme d) then the (colorScheme d)
      else if truthy (cookie_color_scheme (cookie d)) then the (cookie_color_scheme (cookie d))
      else ''light'')"
    by (auto simp: getOdooTheme_def js_or_def js_or_default_def truthy_def split: option.splits)
  have c: "\<forall>rows. (\<forall>row \<in> set rows. CHR '';'' \<notin> set row) \<longrightarrow>
         cookie_color_scheme (cookie_string rows) =
           (case find (\<lambda>row. prefix ''color_scheme='' row) rows of
              None \<Rightarrow> None
            | Some row \<Rightarrow> Some (takeWhile (\<lambda>c. c \<noteq> CHR ''='') (drop 13 row)))"
    using cookie_color_scheme_rows by blast
  have v: "map_of (themeVariables (getMermaidThemeConfig d)) ''primaryColor'' =
       Some (cssVar d ''--o-brand-primary'' (if getOdooTheme d = ''dark'' then ''#4a90a4'' else ''#714B67''))"
     "map_of (themeVariables (getMermaidThemeConfig d)) ''textColor'' =
       Some (cssVar d ''--o-main-text-color'' (if getOdooTheme d = ''dark'' then ''#e5e7eb'' else ''#374151''))"
     "map_of (themeVariables (getMermaidThemeConfig d)) ''mainBkg'' =
       Some (cssVar d ''--o-view-background-color'' (if getOdooTheme d = ''dark'' then ''#374151'' else ''#fff''))"
    by (simp_all add: getMermaidThemeConfig_def Let_def)
  show ?thesis
    apply (intro conjI)
        apply (rule t)
       apply (rule c)
      apply (simp only: v cssVar_def Let_def)
     apply (simp only: v cssVar_def Let_def)
    apply (simp only: v cssVar_def Let_def)
    done
qed

theorem theme_derivation_witness:
  "cookie_color_scheme ''tz=UTC; color_scheme=dark; cids=1'' = Some ''dark''
   \<and> getOdooTheme cookie_dark_doc = ''dark''
   \<and> map_of (themeVariables (getMermaidThemeConfig cookie_dark_doc)) ''primaryColor'' = Some ''#4a90a4''
   \<and> map_of (themeVariables (getMermaidThemeConfig cookie_dark_doc)) ''textColor'' = Some ''#e5e7eb''
   \<and> map_of (themeVariables (getMermaidThemeConfig cookie_dark_doc)) ''mainBkg'' = Some ''#374151''
   \<and> cookie_color_scheme ''tz=UTC; cids=1'' = None
   \<and> getOdooTheme no_signal_doc = ''light''
   \<and> map_of (themeVariables (getMermaidThemeConfig no_signal_doc)) ''primaryColor'' = Some ''#714B67''
   \<and> map_of (themeVariables (getMermaidThemeConfig no_signal_doc)) ''textColor'' = Some ''#374151''
   \<and> map_of (themeVariables (getMermaidThemeConfig no_signal_doc)) ''mainBkg'' = Some ''#fff''
   \<and> getOdooTheme dark_doc = ''dark''
   \<and> map_of (themeVariables (getMermaidThemeConfig dark_doc)) ''primaryColor'' = Some ''#123456''
   \<and> map_of (themeVariables (getMermaidThemeConfig dark_doc)) ''textColor'' = Some ''#e5e7eb''
   \<and> map_of (themeVariables (getMermaidThemeConfig dark_doc)) ''mainBkg'' = Some ''#374151''"
proof -
  have r1: "\<forall>row \<in> set [''tz=UTC'', ''color_scheme=dark'', ''cids=1'']. CHR '';'' \<notin> set row"
    by simp
  have r2: "\<forall>row \<in> set [''tz=UTC'', ''cids=1'']. CHR '';'' \<notin> set row"
    by simp
  have c1: "cookie_color_scheme ''tz=UTC; color_scheme=dark; cids=1'' = Some ''dark''"
    using theme_derivation [of cookie_dark_doc] r1
    by (auto dest!: spec [of _ "[''tz=UTC'', ''color_scheme=dark'', ''cids=1'']"])
  have c2: "cookie_color_scheme ''tz=UTC; cids=1'' = None"
    using theme_derivation [of no_signal_doc] r2
    by (auto dest!: spec [of _ "[''tz=UTC'', ''cids=1'']"])
  have m1: "getOdooTheme cookie_dark_doc = ''dark''"
    using theme_derivation [of cookie_dark_doc] c1 by (simp add: cookie_dark_doc_def truthy_def)
  have m2: "getOdooTheme no_signal_doc = ''light''"
    using theme_derivation [of no_signal_doc] c2 by (simp add: no_signal_doc_def truthy_def)
  have m3: "getOdooTheme dark_doc = ''dark''"
    using theme_derivation [of dark_doc] by (simp add: dark_doc_def truthy_def)
  have p1: "trim (getPropertyValue cookie_dark_doc n) = []" for n
    by (simp add: cookie_dark_doc_def trim_def)
  have p2: "trim (getPropertyValue no_signal_doc n) = []" for n
    by (simp add: no_signal_doc_def trim_def)
  have p3: "trim (getPropertyValue dark_doc ''--o-brand-primary'') = ''#123456''"
           "trim (getPropertyValue dark_doc ''--o-main-text-color'') = []"
           "trim (getPropertyValue dark_doc ''--o-view-background-color'') = []"
    by (simp_all add: dark_doc_def trim_def is_ws_def)
  have v1: "map_of (themeVariables (getMermaidThemeConfig cookie_dark_doc)) ''primaryColor'' = Some ''#4a90a4''
          \<and> map_of (themeVariables (getMermaidThemeConfig cookie_dark_doc)) ''textColor'' = Some ''#e5e7eb''
          \<and> map_of (themeVariables (getMermaidThemeConfig cookie_dark_doc)) ''mainBkg'' = Some ''#374151''"
    using theme_derivation [of cookie_dark_doc] by (simp only: m1 p1) simp
  have v2: "map_of (themeVariables (getMermaidThemeConfig no_signal_doc)) ''primaryColor'' = Some ''#714B67''
          \<and> map_of (themeVariables (getMermaidThemeConfig no_signal_doc)) ''textColor'' = Some ''#374151''
          \<and> map_of (themeVariables (getMermaidThemeConfig no_signal_doc)) ''mainBkg'' = Some ''#fff''"
    using theme_derivation [of no_signal_doc] by (simp only: m2 p2) simp
  have v3: "map_of (themeVariables (getMermaidThemeConfig dark_doc)) ''primaryColor'' = Some ''#123456''
          \<and> map_of (themeVariables (getMermaidThemeConfig dark_doc)) ''textColor'' = Some ''#e5e7eb''
          \<and> map_of (themeVariables (getMermaidThemeConfig dark_doc)) ''mainBkg'' = Some ''#374151''"
    using theme_derivation [of dark_doc] by (simp only: m3 p3) simp
  from c1 c2 m1 m2 m3 v1 v2 v3 show ?thesis by blast
qed

section \<open>Resolving language and content\<close>

text \<open>
  C10. The language of a highlight call is the embedded state's \<open>languageId\<close> when that is
  set and not empty, else the props' \<open>languageId\<close> when that is set and not empty, else
  \<open>plaintext\<close>; the call renders a diagram exactly when this is \<open>mermaid\<close>. The content of
  a diagram is the textarea's value when not empty, else the embedded state's value, else
  the props' value, else the empty string; trimmed, it is what the renderer is given.
\<close>

theorem resolution_precedence:
  "resolveLanguageId c =
     (if truthy (Option.bind (embeddedState c) languageId) then the (Option.bind (embeddedState c) languageId)
      else if truthy (Option.bind (props c) languageId) then the (Option.bind (props c) languageId)
      else ''plaintext'')
   \<and> resolveValue c =
     (if truthy (map_option ta_value (textarea c)) then ta_value (the (textarea c))
      else if truthy (Option.bind (embeddedState c) data_value) then the (Option.bind (embeddedState c) data_value)
      else if truthy (Option.bind (props c) data_value) then the (Option.bind (props c) data_value)
      else [])
   \<and> highlight host focus s =
     (if resolveLanguageId (this s) = ''mermaid'' then renderMermaidDiagram_start s
      else s\<lparr>this := host focus (cleanup (this s))\<rparr>)
   \<and> snd (renderMermaidDiagram_loaded (Some h) rid c) =
     (if trim (resolveValue c) = [] then None else Some (h, rid, trim (resolveValue c)))"
proof -
  have l: "resolveLanguageId c =
     (if truthy (Option.bind (embeddedState c) languageId) then the (Option.bind (embeddedState c) languageId)
      else if truthy (Option.bind (props c) languageId) then the (Option.bind (props c) languageId)
      else ''plaintext'')"
    by (auto simp: resolveLanguageId_def js_or_def js_or_default_def truthy_def split: option.splits)
  have v: "resolveValue c =
     (if truthy (map_option ta_value (textarea c)) then ta_value (the (textarea c))
      else if truthy (Option.bind (embeddedState c) data_value) then the (Option.bind (embeddedState c) data_value)
      else if truthy (Option.bind (props c) data_value) then the (Option.bind (props c) data_value)
      else [])"
    by (auto simp: resolveValue_def js_or_def js_or_default_def truthy_def split: option.splits)
  have h: "highlight host focus s =
     (if resolveLanguageId (this s) = ''mermaid'' then renderMermaidDiagram_start s
      else s\<lparr>this := host focus (cleanup (this s))\<rparr>)"
    by (simp add: highlight_def)
  have r: "snd (renderMermaidDiagram_loaded (Some h) rid c) =
     (if trim (resolveValue c) = [] then None else Some (h, rid, trim (resolveValue c)))"
    by (simp add: renderMermaidDiagram_loaded_def Let_def)
  from l v h r show ?thesis by blast
qed

theorem resolution_precedence_witness:
  "resolveLanguageId diagram_block = ''mermaid'' \<and> resolveValue diagram_block = ''graph TD; A-->B''"
  using resolution_precedence [of diagram_block]
  by (simp add: diagram_block_def truthy_def)

section \<open>Switching away from the diagram language\<close>

text \<open>
  C5. A highlight call whose language is not \<open>mermaid\<close> first cleans up and then runs
  the host's own highlight with the same focus flag on the cleaned component, and does
  nothing else. Cleaning up leaves no container reference; when there was a container,
  its node is removed from the child list and the display of \<open>pre\<close> and of the textarea
  is reset (each where the element exists); when there was none, nothing changes.
\<close>

theorem highlight_other_language:
  assumes "resolveLanguageId (this s) \<noteq> ''mermaid''"
  shows "highlight host focus s = s\<lparr>this := host focus (cleanup (this s))\<rparr>
   \<and> mermaidContainer (cleanup (this s)) = None
   \<and> (case mermaidContainer (this s) of
        None \<Rightarrow> cleanup (this s) = this s
      | Some k \<Rightarrow>
          children (cleanup (this s)) = removeAll (ContainerNode (cid k)) (children (this s))
          \<and> ContainerNode (cid k) \<notin> set (children (cleanup (this s)))
          \<and> map_option pre_display (pre (cleanup (this s))) = map_option (\<lambda>p. []) (pre (this s))
          \<and> map_option ta_display (textarea (cleanup (this s))) = map_option (\<lambda>t. []) (textarea (this s)))"
  using assms
  by (auto simp: highlight_def cleanup_def option.map_comp o_def split: option.splits)

theorem highlight_other_language_witness:
  "resolveLanguageId switched_block \<noteq> ''mermaid''
   \<and> this (highlight host_plain True (initial light_doc switched_block)) = host_plain True (cleanup switched_block)
   \<and> mermaidContainer (cleanup switched_block) = None
   \<and> children (cleanup switched_block) = [OtherNode 0, PreNode, OtherNode 1]
   \<and> map_option pre_display (pre (cleanup switched_block)) = Some []
   \<and> map_option ta_display (textarea (cleanup switched_block)) = Some []"
proof -
  have l: "resolveLanguageId (this (initial light_doc switched_block)) \<noteq> ''mermaid''"
    by (simp add: initial_def switched_block_def resolveLanguageId_def js_or_def js_or_default_def truthy_def)
  have k: "mermaidContainer (this (initial light_doc switched_block)) =
      Some \<lparr> cid = 0, className = ''o_mermaid_container'',
                cssText = ''display: flex; justify-content: center; padding: 1rem; cursor: pointer;'',
                display = ''flex'', innerHTML = ''<svg></svg>'', click_listeners = 1 \<rparr>"
    by (simp add: initial_def switched_block_def)
  have c: "this (initial light_doc switched_block) = switched_block"
    by (simp add: initial_def)
  from highlight_other_language [OF l, of host_plain True] l
  show ?thesis
    unfolding k c by (simp add: switched_block_def)
qed

section \<open>The loader: one load in flight, one cached module\<close>

lemma loader_inv_loader0: "loader_inv loader0"
  by (simp add: loader_inv_def loader0_def)

lemma loader_inv_loadMermaid:
  "loader_inv g \<Longrightarrow> loader_inv (snd (loadMermaid g))"
  by (cases "pending g") (auto simp: loader_inv_def loadMermaid_def Let_def split: option.splits)

lemma loadMermaid_pending_mono:
  "set (pending g) \<subseteq> set (pending (snd (loadMermaid g)))"
  by (auto simp: loadMermaid_def Let_def split: option.splits)

lemma loadMermaid_waits:
  "loader_inv g \<Longrightarrow> set (waits_on (wait_for (fst (loadMermaid g)))) \<subseteq> set (pending (snd (loadMermaid g)))"
  by (auto simp: loader_inv_def loadMermaid_def wait_for_def Let_def split: option.splits)

lemma pending_single:
  "loader_inv g \<Longrightarrow> p \<in> set (pending g) \<Longrightarrow> pending g = [p]"
  by (cases "pending g") (auto simp: loader_inv_def)

lemma resume_pending:
  "pending (snd (loadMermaid_resume p d out g)) = removeAll p (pending g)"
  by (auto simp: loadMermaid_resume_def load_failed_def Let_def split: import_outcome.splits option.splits)

lemma loader_inv_resume:
  assumes "loader_inv g" and "p \<in> set (pending g)"
  shows "loader_inv (snd (loadMermaid_resume p d out g))"
proof -
  have e: "pending (snd (loadMermaid_resume p d out g)) = []"
    using pending_single [OF assms] by (simp add: resume_pending)
  have m: "mermaidModule (snd (loadMermaid_resume p d out g)) = None \<Longrightarrow>
           mermaidLoadingPromise (snd (loadMermaid_resume p d out g)) = None"
    by (auto simp: loadMermaid_resume_def load_failed_def Let_def split: import_outcome.splits option.splits)
  show ?thesis
    unfolding loader_inv_def e using m by auto
qed

lemma sys_inv_initial: "sys_inv (initial d c)"
  by (simp add: sys_inv_def initial_def loader_inv_loader0)

lemma sys_inv_start: 
  assumes "sys_inv s"
  shows "sys_inv (renderMermaidDiagram_start s)"
proof -
  obtain r g where l: "loadMermaid (globals s) = (r, g)"
    by (cases "loadMermaid (globals s)")
  have i: "loader_inv (globals s)"
    and w: "\<forall>w \<in> set (awaiting_load s). set (waits_on w) \<subseteq> set (pending (globals s))"
    using assms by (simp_all add: sys_inv_def)
  have g: "loader_inv g"
    using loader_inv_loadMermaid [OF i] l by simp
  have m: "set (pending (globals s)) \<subseteq> set (pending g)"
    using loadMermaid_pending_mono [of "globals s"] l by simp
  have n: "set (waits_on (wait_for r)) \<subseteq> set (pending g)"
    using loadMermaid_waits [OF i] l by simp
  have "\<forall>w \<in> set (awaiting_load s @ [wait_for r]). set (waits_on w) \<subseteq> set (pending g)"
    using w m n by auto
  then show ?thesis
    using g l by (simp add: sys_inv_def renderMermaidDiagram_start_def)
qed

lemma sys_inv_highlight: "sys_inv s \<Longrightarrow> sys_inv (highlight host focus s)"
  by (simp add: highlight_def sys_inv_start) (simp add: sys_inv_def)

lemma waits_on_wake:
  "set (waits_on w) \<subseteq> set ps \<Longrightarrow> set (waits_on (wake p v w)) \<subseteq> set (removeAll p ps)"
  by (cases w) (auto simp: wake_def)

lemma sys_inv_import_settled:
  assumes "sys_inv s"
  shows "sys_inv (import_settled p out s)"
proof (cases "p \<in> set (pending (globals s))")
  case False
  then show ?thesis using assms by (simp add: import_settled_def)
next
  case True
  obtain v g where l: "loadMermaid_resume p (doc s) out (globals s) = (v, g)"
    by (cases "loadMermaid_resume p (doc s) out (globals s)")
  have i: "loader_inv (globals s)"
    and w: "\<forall>w \<in> set (awaiting_load s). set (waits_on w) \<subseteq> set (pending (globals s))"
    using assms by (simp_all add: sys_inv_def)
  have g: "loader_inv g"
    using loader_inv_resume [OF i True, of "doc s" out] l by simp
  have q: "pending g = removeAll p (pending (globals s))"
    using resume_pending [of p "doc s" out "globals s"] l by simp
  have "\<forall>w \<in> set (map (wake p v) (awaiting_load s)). set (waits_on w) \<subseteq> set (pending g)"
    using w waits_on_wake [of _ "pending (globals s)" p v] by (simp add: q)
  then show ?thesis
    using True g l by (simp add: sys_inv_def import_settled_def)
qed

lemma set_remove_at: "set (remove_at i xs) \<subseteq> set xs"
  by (auto simp: remove_at_def dest: in_set_takeD in_set_dropD)

lemma sys_inv_load_resumed: "sys_inv s \<Longrightarrow> sys_inv (load_resumed i now rnd s)"
  using set_remove_at [of i "awaiting_load s"]
  by (auto simp: sys_inv_def load_resumed_def loader_inv_def Let_def split: prod.splits load_wait.splits option.splits)

lemma sys_inv_render_settled: "sys_inv s \<Longrightarrow> sys_inv (render_settled i out s)"
  by (auto simp: sys_inv_def render_settled_def Let_def split: sum.splits)

lemma sys_inv_step: "sys_inv s \<Longrightarrow> sys_inv (step host ev s)"
  by (cases ev)
     (simp_all add: sys_inv_highlight sys_inv_import_settled sys_inv_load_resumed sys_inv_render_settled,
      simp_all add: sys_inv_def)

lemma sys_inv_run: "sys_inv s \<Longrightarrow> sys_inv (run host evs s)"
  by (induction evs arbitrary: s) (simp_all add: sys_inv_step)


lemma loaded_stays_step:
  assumes "sys_inv s" and "mermaidModule (globals s) = Some h"
  shows "mermaidModule (globals (step host ev s)) = Some h
       \<and> fetched (globals (step host ev s)) = fetched (globals s)"
proof -
  have np: "pending (globals s) = []"
    using assms by (cases "pending (globals s)") (auto simp: sys_inv_def loader_inv_def)
  show ?thesis
    using assms(2) np
    by (cases ev)
       (auto simp: highlight_def renderMermaidDiagram_start_def loadMermaid_def import_settled_def
                   load_resumed_def render_settled_def Let_def
             split: prod.splits load_wait.splits option.splits sum.splits)
qed

lemma loaded_stays_run:
  "sys_inv s \<Longrightarrow> mermaidModule (globals s) = Some h \<Longrightarrow>
   mermaidModule (globals (run host evs s)) = Some h
   \<and> fetched (globals (run host evs s)) = fetched (globals s)"
proof (induction evs arbitrary: s)
  case Nil
  then show ?case by simp
next
  case (Cons ev evs)
  have a: "sys_inv (step host ev s)"
    using Cons.prems(1) by (rule sys_inv_step)
  have b: "mermaidModule (globals (step host ev s)) = Some h"
       "fetched (globals (step host ev s)) = fetched (globals s)"
    using loaded_stays_step [OF Cons.prems] by simp_all
  show ?case
    using Cons.IH [OF a b(1)] b(2) by simp
qed

lemma in_flight_joins:
  "loader_inv g \<Longrightarrow> p \<in> set (pending g) \<Longrightarrow> loadMermaid g = (InFlight p, g)"
  by (auto simp: loader_inv_def loadMermaid_def)

lemma idle_starts_one:
  assumes "loader_inv g" and "pending g = []" and "mermaidModule g = None"
  shows "fst (loadMermaid g) = InFlight (length (fetched g))
       \<and> fetched (snd (loadMermaid g)) = fetched g @ [MERMAID_CDN_URL]
       \<and> pending (snd (loadMermaid g)) = [length (fetched g)]
       \<and> loadMermaid (snd (loadMermaid g)) = (InFlight (length (fetched g)), snd (loadMermaid g))"
proof -
  have "mermaidLoadingPromise g = None"
    using assms by (cases "mermaidLoadingPromise g") (auto simp: loader_inv_def)
  then show ?thesis
    using assms(2,3) by (simp add: loadMermaid_def Let_def)
qed

lemma settle_wakes_all:
  assumes "sys_inv s" and "p \<in> set (pending (globals s))"
  shows "awaiting_load (import_settled p out s) =
           map (\<lambda>w. case w of Ready x \<Rightarrow> Ready x
                     | OnPromise q \<Rightarrow> Ready (fst (loadMermaid_resume p (doc s) out (globals s))))
               (awaiting_load s)"
proof -
  have single: "pending (globals s) = [p]"
    using assms pending_single by (simp add: sys_inv_def)
  have "\<forall>w \<in> set (awaiting_load s). set (waits_on w) \<subseteq> {p}"
    using assms(1) single by (simp add: sys_inv_def)
  then have "\<forall>w \<in> set (awaiting_load s).
               wake p (fst (loadMermaid_resume p (doc s) out (globals s))) w =
               (case w of Ready x \<Rightarrow> Ready x
                | OnPromise q \<Rightarrow> Ready (fst (loadMermaid_resume p (doc s) out (globals s))))"
    by (auto simp: wake_def split: load_wait.splits)
  then have "map (wake p (fst (loadMermaid_resume p (doc s) out (globals s)))) (awaiting_load s) =
           map (\<lambda>w. case w of Ready x \<Rightarrow> Ready x
                     | OnPromise q \<Rightarrow> Ready (fst (loadMermaid_resume p (doc s) out (globals s))))
               (awaiting_load s)"
    by (intro map_cong) simp_all
  then show ?thesis
    using assms(2) by (cases "loadMermaid_resume p (doc s) out (globals s)") (simp add: import_settled_def)
qed

lemma resume_success:
  "fst (loadMermaid_resume p d (ImportFulfilled (Some h) None) g) = Some h
   \<and> mermaidModule (snd (loadMermaid_resume p d (ImportFulfilled (Some h) None) g)) = Some h
   \<and> fetched (snd (loadMermaid_resume p d (ImportFulfilled (Some h) None) g)) = fetched g"
  by (simp add: loadMermaid_resume_def Let_def)

lemma resume_failure:
  "(\<forall>h. out \<noteq> ImportFulfilled (Some h) None) \<Longrightarrow> fst (loadMermaid_resume p d out g) = None"
  by (auto simp: loadMermaid_resume_def load_failed_def Let_def
           split: import_outcome.splits option.splits)

lemma settle_success:
  assumes "sys_inv s" and "p \<in> set (pending (globals s))"
  shows "mermaidModule (globals (import_settled p (ImportFulfilled (Some h) None) s)) = Some h
       \<and> fetched (globals (import_settled p (ImportFulfilled (Some h) None) s)) = fetched (globals s)
       \<and> loadMermaid (globals (import_settled p (ImportFulfilled (Some h) None) s)) =
           (Cached h, globals (import_settled p (ImportFulfilled (Some h) None) s))
       \<and> (\<forall>evs'. mermaidModule (globals (run host evs' (import_settled p (ImportFulfilled (Some h) None) s))) = Some h
                \<and> fetched (globals (run host evs' (import_settled p (ImportFulfilled (Some h) None) s))) =
                    fetched (globals s))"
proof -
  let ?s' = "import_settled p (ImportFulfilled (Some h) None) s"
  have g: "globals ?s' = snd (loadMermaid_resume p (doc s) (ImportFulfilled (Some h) None) (globals s))"
    using assms(2) by (simp add: import_settled_def split: prod.splits)
  have m: "mermaidModule (globals ?s') = Some h" and f: "fetched (globals ?s') = fetched (globals s)"
    unfolding g using resume_success [of p "doc s" h "globals s"] by simp_all
  have inv: "sys_inv ?s'"
    using assms(1) by (rule sys_inv_import_settled)
  have l: "loadMermaid (globals ?s') = (Cached h, globals ?s')"
    using m by (simp add: loadMermaid_def)
  from m f l loaded_stays_run [OF inv m] show ?thesis
    by simp
qed

lemma cached_call_queued:
  "mermaidModule (globals s) = Some h \<Longrightarrow>
   renderMermaidDiagram_start s = s\<lparr>awaiting_load := awaiting_load s @ [Ready (Some h)]\<rparr>"
  by (simp add: renderMermaidDiagram_start_def loadMermaid_def wait_for_def)

lemma cached_state:
  "mermaidModule (globals (run host_plain first_render_events (initial light_doc diagram_block))) = Some 7
   \<and> awaiting_load (run host_plain first_render_events (initial light_doc diagram_block)) = []
   \<and> fetched (globals (run host_plain first_render_events (initial light_doc diagram_block))) =
       [MERMAID_CDN_URL]"
  by (simp add: first_render_events_def render_pending_events_def diagram_block_def eval_defs)

text \<open>
  The claim that a call after a successful load returns the cached handle synchronously
  fails: the loader is an \<open>async\<close> function, so the caller gets a promise and is suspended
  at its \<open>await\<close> also when the module is cached. After a highlight call on a loaded
  component the render has not gone on: the caller is queued with the module as its ready
  result, the component and the calls made on the library are as before, and a second
  highlight call runs before the first caller resumes.
\<close>

theorem cached_call_counterexample:
  "mermaidModule (globals (run host_plain first_render_events (initial light_doc diagram_block))) = Some 7
   \<and> awaiting_load (run host_plain first_render_events (initial light_doc diagram_block)) = []
   \<and> awaiting_load (step host_plain (Highlight False)
         (run host_plain first_render_events (initial light_doc diagram_block))) = [Ready (Some 7)]
   \<and> this (step host_plain (Highlight False)
         (run host_plain first_render_events (initial light_doc diagram_block))) =
       this (run host_plain first_render_events (initial light_doc diagram_block))
   \<and> lib_calls (globals (step host_plain (Highlight False)
         (run host_plain first_render_events (initial light_doc diagram_block)))) =
       lib_calls (globals (run host_plain first_render_events (initial light_doc diagram_block)))
   \<and> awaiting_load (run host_plain [Highlight False, Highlight True]
         (run host_plain first_render_events (initial light_doc diagram_block))) =
       [Ready (Some 7), Ready (Some 7)]"
  by (simp add: first_render_events_def render_pending_events_def diagram_block_def eval_defs)

text \<open>
  C3, as the code has it. In every state the event loop can reach from the initial one: at
  most one load is suspended; while one is, a call of the loader returns the promise of that
  load and changes nothing (it starts no fetch), every suspended caller waits for that load,
  and when it settles every one of them receives the same value: \<open>null\<close> for every
  failure, and the handle for a fulfilled import whose \<open>initialize\<close> returns, which also
  caches the handle. With nothing in flight and nothing cached, a call starts exactly one
  fetch and the next call joins it. Once a module is cached, a call hands it back with no
  fetch and no change of state, as a promise that is fulfilled from the start: the caller is
  still suspended at its \<open>await\<close> and resumes later with the module. The module stays
  cached, with no further fetch, in every later state.
\<close>

theorem loader_single_flight:
  assumes "s = run host evs (initial d c)" and "g = globals s"
  shows "length (pending g) \<le> 1
   \<and> (\<forall>p \<in> set (pending g). loadMermaid g = (InFlight p, g))
   \<and> (\<forall>w \<in> set (awaiting_load s). set (waits_on w) \<subseteq> set (pending g))
   \<and> (\<forall>p \<in> set (pending g). \<forall>out.
         awaiting_load (import_settled p out s) =
           map (\<lambda>w. case w of Ready x \<Rightarrow> Ready x
                     | OnPromise q \<Rightarrow> Ready (fst (loadMermaid_resume p (doc s) out g)))
               (awaiting_load s))
   \<and> (\<forall>p \<in> set (pending g). \<forall>out. (\<forall>h. out \<noteq> ImportFulfilled (Some h) None) \<longrightarrow>
         fst (loadMermaid_resume p (doc s) out g) = None)
   \<and> (\<forall>p \<in> set (pending g). \<forall>h.
         fst (loadMermaid_resume p (doc s) (ImportFulfilled (Some h) None) g) = Some h
       \<and> mermaidModule (globals (import_settled p (ImportFulfilled (Some h) None) s)) = Some h
       \<and> fetched (globals (import_settled p (ImportFulfilled (Some h) None) s)) = fetched g
       \<and> loadMermaid (globals (import_settled p (ImportFulfilled (Some h) None) s)) =
           (Cached h, globals (import_settled p (ImportFulfilled (Some h) None) s))
       \<and> (\<forall>evs'. mermaidModule (globals (run host evs' (import_settled p (ImportFulfilled (Some h) None) s))) = Some h
                \<and> fetched (globals (run host evs' (import_settled p (ImportFulfilled (Some h) None) s))) = fetched g))
   \<and> (pending g = [] \<and> mermaidModule g = None \<longrightarrow>
         fst (loadMermaid g) = InFlight (length (fetched g))
       \<and> fetched (snd (loadMermaid g)) = fetched g @ [MERMAID_CDN_URL]
       \<and> pending (snd (loadMermaid g)) = [length (fetched g)]
       \<and> loadMermaid (snd (loadMermaid g)) = (InFlight (length (fetched g)), snd (loadMermaid g)))
   \<and> (\<forall>h. mermaidModule g = Some h \<longrightarrow>
         loadMermaid g = (Cached h, g)
       \<and> renderMermaidDiagram_start s = s\<lparr>awaiting_load := awaiting_load s @ [Ready (Some h)]\<rparr>
       \<and> (\<forall>evs'. mermaidModule (globals (run host evs' s)) = Some h
                 \<and> fetched (globals (run host evs' s)) = fetched g))"
proof -
  have inv: "sys_inv s"
    unfolding assms(1) by (rule sys_inv_run) (rule sys_inv_initial)
  then have li: "loader_inv g"
    by (simp add: sys_inv_def assms(2))
  have 1: "length (pending g) \<le> 1"
    using li by (simp add: loader_inv_def)
  have 2: "\<forall>p \<in> set (pending g). loadMermaid g = (InFlight p, g)"
    using li in_flight_joins by blast
  have 3: "\<forall>w \<in> set (awaiting_load s). set (waits_on w) \<subseteq> set (pending g)"
    using inv by (simp add: sys_inv_def assms(2))
  have 4: "\<forall>p \<in> set (pending g). \<forall>out.
         awaiting_load (import_settled p out s) =
           map (\<lambda>w. case w of Ready x \<Rightarrow> Ready x
                     | OnPromise q \<Rightarrow> Ready (fst (loadMermaid_resume p (doc s) out g)))
               (awaiting_load s)"
    unfolding assms(2) using settle_wakes_all [OF inv] by blast
  have 5: "\<forall>p \<in> set (pending g). \<forall>out. (\<forall>h. out \<noteq> ImportFulfilled (Some h) None) \<longrightarrow>
         fst (loadMermaid_resume p (doc s) out g) = None"
    using resume_failure by blast
  have 6: "\<forall>p \<in> set (pending g). \<forall>h.
         fst (loadMermaid_resume p (doc s) (ImportFulfilled (Some h) None) g) = Some h
       \<and> mermaidModule (globals (import_settled p (ImportFulfilled (Some h) None) s)) = Some h
       \<and> fetched (globals (import_settled p (ImportFulfilled (Some h) None) s)) = fetched g
       \<and> loadMermaid (globals (import_settled p (ImportFulfilled (Some h) None) s)) =
           (Cached h, globals (import_settled p (ImportFulfilled (Some h) None) s))
       \<and> (\<forall>evs'. mermaidModule (globals (run host evs' (import_settled p (ImportFulfilled (Some h) None) s))) = Some h
                \<and> fetched (globals (run host evs' (import_settled p (ImportFulfilled (Some h) None) s))) = fetched g)"
    unfolding assms(2) using settle_success [OF inv] resume_success by blast
  have 7: "pending g = [] \<and> mermaidModule g = None \<longrightarrow>
         fst (loadMermaid g) = InFlight (length (fetched g))
       \<and> fetched (snd (loadMermaid g)) = fetched g @ [MERMAID_CDN_URL]
       \<and> pending (snd (loadMermaid g)) = [length (fetched g)]
       \<and> loadMermaid (snd (loadMermaid g)) = (InFlight (length (fetched g)), snd (loadMermaid g))"
    using idle_starts_one [OF li] by blast
  have 8: "\<forall>h. mermaidModule g = Some h \<longrightarrow>
         loadMermaid g = (Cached h, g)
       \<and> renderMermaidDiagram_start s = s\<lparr>awaiting_load := awaiting_load s @ [Ready (Some h)]\<rparr>
       \<and> (\<forall>evs'. mermaidModule (globals (run host evs' s)) = Some h
                 \<and> fetched (globals (run host evs' s)) = fetched g)"
    using loaded_stays_run [OF inv] cached_call_queued [of s]
    by (auto simp: assms(2) loadMermaid_def)
  from 1 2 3 4 5 6 7 8 show ?thesis by blast
qed

lemma diagram_block_language: "resolveLanguageId diagram_block = ''mermaid''"
  by (simp add: diagram_block_def resolveLanguageId_def js_or_def js_or_default_def truthy_def)

lemma two_calls_state:
  "run host_plain [Highlight False, Highlight True] (initial light_doc diagram_block) =
     \<lparr> globals = \<lparr> mermaidModule = None, mermaidLoadingPromise = Some 0, fetched = [MERMAID_CDN_URL],
                   pending = [0], console_error = [], lib_calls = [] \<rparr>,
       doc = light_doc, this = diagram_block,
       awaiting_load = [OnPromise 0, OnPromise 0], awaiting_render = [], unhandled = [] \<rparr>"
  by (simp add: initial_def loader0_def highlight_def diagram_block_language
                renderMermaidDiagram_start_def loadMermaid_def wait_for_def)

theorem loader_single_flight_witness:
  "fetched (globals (run host_plain [Highlight False, Highlight True] (initial light_doc diagram_block))) =
     [MERMAID_CDN_URL]
   \<and> loadMermaid (globals (run host_plain [Highlight False, Highlight True] (initial light_doc diagram_block))) =
       (InFlight 0, globals (run host_plain [Highlight False, Highlight True] (initial light_doc diagram_block)))
   \<and> awaiting_load (import_settled 0 (ImportFulfilled (Some 7) None)
        (run host_plain [Highlight False, Highlight True] (initial light_doc diagram_block))) =
       [Ready (Some 7), Ready (Some 7)]
   \<and> awaiting_load (import_settled 0 (ImportRejected \<lparr>message = Some ''Failed to fetch''\<rparr>)
        (run host_plain [Highlight False, Highlight True] (initial light_doc diagram_block))) =
       [Ready None, Ready None]
   \<and> mermaidModule (globals (import_settled 0 (ImportFulfilled (Some 7) None)
        (run host_plain [Highlight False, Highlight True] (initial light_doc diagram_block)))) = Some 7
   \<and> fst (loadMermaid (globals (import_settled 0 (ImportFulfilled (Some 7) None)
        (run host_plain [Highlight False, Highlight True] (initial light_doc diagram_block))))) = Cached 7
   \<and> fetched (globals (run host_plain [Highlight False]
        (import_settled 0 (ImportFulfilled (Some 7) None)
           (run host_plain [Highlight False, Highlight True] (initial light_doc diagram_block))))) =
       [MERMAID_CDN_URL]
   \<and> renderMermaidDiagram_start (run host_plain first_render_events (initial light_doc diagram_block)) =
       (run host_plain first_render_events (initial light_doc diagram_block))
         \<lparr>awaiting_load := [Ready (Some 7)]\<rparr>"
proof -
  let ?s = "run host_plain [Highlight False, Highlight True] (initial light_doc diagram_block)"
  let ?c = "run host_plain first_render_events (initial light_doc diagram_block)"
  have p: "pending (globals ?s) = [0]" and f: "fetched (globals ?s) = [MERMAID_CDN_URL]"
    and a: "awaiting_load ?s = [OnPromise 0, OnPromise 0]"
    by (simp_all only: two_calls_state) simp_all
  have n: "\<forall>h. ImportRejected \<lparr>message = Some ''Failed to fetch''\<rparr> \<noteq> ImportFulfilled (Some h) None"
    by simp
  have in0: "0 \<in> set (pending (globals ?s))"
    using p by simp
  note t = loader_single_flight
             [OF refl refl, of host_plain "[Highlight False, Highlight True]" light_doc diagram_block]
  note t2 = t [THEN conjunct2, THEN conjunct1, THEN bspec, OF in0]
  note t4 = t [THEN conjunct2, THEN conjunct2, THEN conjunct2, THEN conjunct1, THEN bspec, OF in0]
  note t5 = t [THEN conjunct2, THEN conjunct2, THEN conjunct2, THEN conjunct2, THEN conjunct1,
               THEN bspec, OF in0]
  note t6 = t [THEN conjunct2, THEN conjunct2, THEN conjunct2, THEN conjunct2, THEN conjunct2,
               THEN conjunct1, THEN bspec, OF in0, THEN spec, of 7]
  have 1: "loadMermaid (globals ?s) = (InFlight 0, globals ?s)"
    by (rule t2)
  have 2: "fst (loadMermaid_resume 0 (doc ?s) (ImportFulfilled (Some 7) None) (globals ?s)) = Some 7"
          "mermaidModule (globals (import_settled 0 (ImportFulfilled (Some 7) None) ?s)) = Some 7"
          "loadMermaid (globals (import_settled 0 (ImportFulfilled (Some 7) None) ?s)) =
             (Cached 7, globals (import_settled 0 (ImportFulfilled (Some 7) None) ?s))"
          "fetched (globals (run host_plain [Highlight False]
             (import_settled 0 (ImportFulfilled (Some 7) None) ?s))) = fetched (globals ?s)"
    using t6 by blast+
  have 3: "fst (loadMermaid_resume 0 (doc ?s) (ImportRejected \<lparr>message = Some ''Failed to fetch''\<rparr>)
                  (globals ?s)) = None"
    using t5 n by blast
  have 4: "awaiting_load (import_settled 0 (ImportFulfilled (Some 7) None) ?s) =
             [Ready (Some 7), Ready (Some 7)]"
          "awaiting_load (import_settled 0 (ImportRejected \<lparr>message = Some ''Failed to fetch''\<rparr>) ?s) =
             [Ready None, Ready None]"
    using t4 [THEN spec, of "ImportFulfilled (Some 7) None"]
          t4 [THEN spec, of "ImportRejected \<lparr>message = Some ''Failed to fetch''\<rparr>"]
    by (simp_all only: a 2(1) 3) simp_all
  have 5: "renderMermaidDiagram_start ?c = ?c\<lparr>awaiting_load := awaiting_load ?c @ [Ready (Some 7)]\<rparr>"
    using loader_single_flight [OF refl refl, of host_plain first_render_events light_doc diagram_block]
          cached_state by blast
  have 6: "renderMermaidDiagram_start ?c = ?c\<lparr>awaiting_load := [Ready (Some 7)]\<rparr>"
    using 5 cached_state by (simp only: append_Nil)
  have 7: "fst (loadMermaid (globals (import_settled 0 (ImportFulfilled (Some 7) None) ?s))) = Cached 7"
    by (simp only: 2(3) fst_conv)
  have 8: "fetched (globals (run host_plain [Highlight False]
             (import_settled 0 (ImportFulfilled (Some 7) None) ?s))) = [MERMAID_CDN_URL]"
    by (simp only: 2(4) f)
  from f 1 4 2(2) 7 8 6 show ?thesis
    by blast
qed

section \<open>At most one render target\<close>

lemma containers_removeAll: "containers (removeAll n xs) = removeAll n (containers xs)"
  by (induction xs) (auto simp: containers_def)

lemma insert_after_split:
  "x \<notin> set xs \<Longrightarrow> insert_after x y (xs @ x # ys) = xs @ x # y # ys"
  by (induction xs) auto

lemma containers_insert_after:
  "containers xs = [] \<Longrightarrow> PreNode \<in> set xs \<Longrightarrow>
   containers (insert_after PreNode (ContainerNode n) xs) = [ContainerNode n]"
proof (induction xs)
  case Nil
  then show ?case by simp
next
  case (Cons z zs)
  then show ?case
    by (cases z) (auto simp: containers_def)
qed

lemma one_container_cleanup:
  "one_container c \<Longrightarrow> mermaidContainer (cleanup c) = None \<and> containers (children (cleanup c)) = []"
  by (auto simp: one_container_def cleanup_def containers_removeAll split: option.splits)

lemma one_container_create:
  assumes "mermaidContainer c = None" and "one_container c"
  shows "one_container (create_container c)"
  using assms containers_insert_after [of "children c" "created c"]
  by (auto simp: one_container_def create_container_def)

lemma one_container_show: "one_container (show_diagram c) = one_container c"
  by (auto simp: one_container_def show_diagram_def split: option.splits)

lemma one_container_innerHTML: "one_container (set_innerHTML h c) = one_container c"
  by (auto simp: one_container_def set_innerHTML_def split: option.splits)

lemma one_container_loaded:
  "one_container c \<Longrightarrow> one_container (fst (renderMermaidDiagram_loaded v rid c))"
proof (cases v)
  case None
  assume "one_container c"
  then show ?thesis
    using None by (auto simp: renderMermaidDiagram_loaded_def one_container_def split: option.splits)
next
  case (Some h)
  assume a: "one_container c"
  have "one_container (if mermaidContainer c = None then create_container c else c)"
    using a one_container_create by simp
  then show ?thesis
    using Some by (simp add: renderMermaidDiagram_loaded_def Let_def one_container_show one_container_innerHTML)
qed

lemma one_container_rendered:
  "one_container c \<Longrightarrow> renderMermaidDiagram_rendered out c = Inr c' \<Longrightarrow> one_container c'"
  by (auto simp: renderMermaidDiagram_rendered_def one_container_innerHTML
           split: option.splits render_outcome.splits)

lemma one_container_click: "one_container (click c) = one_container c"
  by (auto simp: click_def one_container_def split: option.splits)

lemma one_container_host:
  assumes "\<And>focus c. mermaidContainer (host focus c) = mermaidContainer c"
      and "\<And>focus c. containers (children (host focus c)) = containers (children c)"
  shows "one_container (host focus c) = one_container c"
  by (auto simp: one_container_def assms split: option.splits)

lemma one_container_cong:
  "mermaidContainer c' = mermaidContainer c \<Longrightarrow> children c' = children c \<Longrightarrow>
   one_container c' = one_container c"
  by (simp add: one_container_def split: option.splits)

lemma this_import_settled: "this (import_settled p out s) = this s"
  by (simp add: import_settled_def split: prod.splits)

lemma one_container_step:
  assumes "\<And>focus c. mermaidContainer (host focus c) = mermaidContainer c"
      and "\<And>focus c. containers (children (host focus c)) = containers (children c)"
      and "one_container (this s)"
  shows "one_container (this (step host ev s))"
proof (cases ev)
  case (Highlight focus)
  have "one_container (cleanup (this s))"
    using one_container_cleanup [OF assms(3)] by (simp add: one_container_def)
  then have "one_container (host focus (cleanup (this s)))"
    using one_container_host [of host focus "cleanup (this s)"] assms(1,2) by simp
  then show ?thesis
    using Highlight assms(3)
    by (simp add: highlight_def renderMermaidDiagram_start_def split: prod.splits)
next
  case (LoadResumed i now rnd)
  show ?thesis
  proof (cases "i < length (awaiting_load s)")
    case False
    then show ?thesis using LoadResumed assms(3) by (simp add: load_resumed_def)
  next
    case True
    show ?thesis
    proof (cases "awaiting_load s ! i")
      case (OnPromise p)
      then show ?thesis using LoadResumed True assms(3) by (simp add: load_resumed_def)
    next
      case (Ready v)
      have "this (load_resumed i now rnd s) = fst (renderMermaidDiagram_loaded v (render_id now rnd) (this s))"
        using True Ready
        by (simp add: load_resumed_def Let_def split: prod.splits option.splits)
      then show ?thesis
        using LoadResumed one_container_loaded [OF assms(3)] by simp
    qed
  qed
next
  case (RenderSettled i out)
  then show ?thesis
    using assms(3) one_container_rendered [OF assms(3)]
    by (auto simp: render_settled_def Let_def split: sum.splits)
next
  case Click
  then show ?thesis using assms(3) by (simp add: one_container_click)
next
  case (SetEmbeddedState e)
  then show ?thesis
    using assms(3) one_container_cong [of "(this s)\<lparr>embeddedState := e\<rparr>" "this s"] by simp
next
  case (SetProps e)
  then show ?thesis
    using assms(3) one_container_cong [of "(this s)\<lparr>props := e\<rparr>" "this s"] by simp
next
  case (Input v)
  then show ?thesis
    using assms(3)
          one_container_cong
            [of "(this s)\<lparr>textarea := map_option (\<lambda>t. t\<lparr>ta_value := v\<rparr>) (textarea (this s))\<rparr>" "this s"]
    by simp
next
  case (SetDocument d)
  then show ?thesis using assms(3) by simp
next
  case (ImportSettled p out)
  then show ?thesis using assms(3) by (simp add: this_import_settled)
qed

lemma one_container_run:
  assumes "\<And>focus c. mermaidContainer (host focus c) = mermaidContainer c"
      and "\<And>focus c. containers (children (host focus c)) = containers (children c)"
  shows "one_container (this s) \<Longrightarrow> one_container (this (run host evs s))"
proof (induction evs arbitrary: s)
  case Nil
  then show ?case by simp
next
  case (Cons ev evs)
  show ?case
    using Cons.IH [OF one_container_step [OF assms Cons.prems]] by simp
qed

lemma one_container_length: "one_container c \<Longrightarrow> length (containers (children c)) \<le> 1"
  by (auto simp: one_container_def split: option.splits)


lemma fresh_one_container: "fresh c \<Longrightarrow> one_container c"
  by (simp add: fresh_def one_container_def)

lemma loaded_creates:
  assumes "mermaidContainer c = None"
  shows "\<exists>k. mermaidContainer (fst (renderMermaidDiagram_loaded (Some h) rid c)) = Some k
             \<and> cid k = created c"
    and "pre c \<noteq> None \<Longrightarrow> children c = xs @ PreNode # ys \<Longrightarrow> PreNode \<notin> set xs \<Longrightarrow>
         children (fst (renderMermaidDiagram_loaded (Some h) rid c)) =
           xs @ PreNode # ContainerNode (created c) # ys"
  using assms
  by (auto simp: renderMermaidDiagram_loaded_def Let_def create_container_def show_diagram_def
                 set_innerHTML_def insert_after_split)

lemma loaded_reuses:
  assumes "mermaidContainer c = Some k"
  shows "map_option cid (mermaidContainer (fst (renderMermaidDiagram_loaded (Some h) rid c))) = Some (cid k)
       \<and> children (fst (renderMermaidDiagram_loaded (Some h) rid c)) = children c
       \<and> created (fst (renderMermaidDiagram_loaded (Some h) rid c)) = created c"
  using assms
  by (auto simp: renderMermaidDiagram_loaded_def Let_def show_diagram_def set_innerHTML_def)

lemma session_children:
  "children (this (run host_plain session_events (initial light_doc diagram_block))) =
     [OtherNode 0, PreNode, ContainerNode 0, OtherNode 1]"
  by (simp add: session_events_def first_render_events_def render_pending_events_def initial_def loader0_def highlight_def
        renderMermaidDiagram_start_def loadMermaid_def wait_for_def import_settled_def
        loadMermaid_resume_def wake_def load_resumed_def renderMermaidDiagram_loaded_def
        render_settled_def renderMermaidDiagram_rendered_def remove_at_def Let_def
        create_container_def show_diagram_def set_innerHTML_def
        diagram_block_def resolveLanguageId_def resolveValue_def js_or_def js_or_default_def
        truthy_def trim_def is_ws_def)

lemma switch_away_children:
  "children (this (run host_plain switch_away_events (initial light_doc diagram_block))) =
     [OtherNode 0, PreNode, OtherNode 1]
   \<and> mermaidContainer (this (run host_plain switch_away_events (initial light_doc diagram_block))) = None"
  by (simp add: switch_away_events_def session_events_def first_render_events_def render_pending_events_def initial_def loader0_def highlight_def
        renderMermaidDiagram_start_def loadMermaid_def wait_for_def import_settled_def
        loadMermaid_resume_def wake_def load_resumed_def renderMermaidDiagram_loaded_def
        render_settled_def renderMermaidDiagram_rendered_def remove_at_def Let_def
        create_container_def show_diagram_def set_innerHTML_def cleanup_def host_plain_def
        diagram_block_def resolveLanguageId_def resolveValue_def js_or_def js_or_default_def
        truthy_def trim_def is_ws_def)

text \<open>
  C8. Provided the host's own highlight leaves the container reference and the container
  nodes alone, in every state reached from one without a container the child list holds at
  most one container node, and that node belongs to the container the component refers to.
  A highlight call for another language leaves no reference and no container node; one for
  \<open>mermaid\<close> does not touch the component by itself. A render that has the module creates
  the container only when there is no reference, as a new element put right behind \<open>pre\<close> in
  the child list (when \<open>pre\<close> exists and has a parent), and otherwise keeps the container,
  the child list and the count of created elements as they are.
\<close>

theorem single_render_target:
  assumes "\<And>focus c. mermaidContainer (host focus c) = mermaidContainer c"
      and "\<And>focus c. containers (children (host focus c)) = containers (children c)"
      and "fresh (this start)"
      and "s = run host evs start"
  shows "length (containers (children (this s))) \<le> 1
   \<and> one_container (this s)
   \<and> (resolveLanguageId (this s) \<noteq> ''mermaid'' \<longrightarrow>
         mermaidContainer (this (step host (Highlight focus) s)) = None
       \<and> containers (children (this (step host (Highlight focus) s))) = [])
   \<and> (resolveLanguageId (this s) = ''mermaid'' \<longrightarrow> this (step host (Highlight focus) s) = this s)
   \<and> (mermaidContainer (this s) = None \<longrightarrow>
         (\<exists>k. mermaidContainer (fst (renderMermaidDiagram_loaded (Some h) rid (this s))) = Some k
              \<and> cid k = created (this s))
       \<and> (\<forall>xs ys. pre (this s) \<noteq> None \<and> children (this s) = xs @ PreNode # ys \<and> PreNode \<notin> set xs \<longrightarrow>
              children (fst (renderMermaidDiagram_loaded (Some h) rid (this s))) =
                xs @ PreNode # ContainerNode (created (this s)) # ys))
   \<and> (\<forall>k. mermaidContainer (this s) = Some k \<longrightarrow>
         map_option cid (mermaidContainer (fst (renderMermaidDiagram_loaded (Some h) rid (this s)))) = Some (cid k)
       \<and> children (fst (renderMermaidDiagram_loaded (Some h) rid (this s))) = children (this s)
       \<and> created (fst (renderMermaidDiagram_loaded (Some h) rid (this s))) = created (this s))"
proof -
  have inv: "one_container (this s)"
    unfolding assms(4)
    by (rule one_container_run [OF assms(1,2)]) (rule fresh_one_container [OF assms(3)])
  have 1: "length (containers (children (this s))) \<le> 1"
    using inv by (rule one_container_length)
  have 3: "resolveLanguageId (this s) \<noteq> ''mermaid'' \<longrightarrow>
         mermaidContainer (this (step host (Highlight focus) s)) = None
       \<and> containers (children (this (step host (Highlight focus) s))) = []"
    using one_container_cleanup [OF inv] by (simp add: highlight_def assms(1,2))
  have 4: "resolveLanguageId (this s) = ''mermaid'' \<longrightarrow> this (step host (Highlight focus) s) = this s"
    by (simp add: highlight_def renderMermaidDiagram_start_def split: prod.splits)
  have 5: "mermaidContainer (this s) = None \<longrightarrow>
         (\<exists>k. mermaidContainer (fst (renderMermaidDiagram_loaded (Some h) rid (this s))) = Some k
              \<and> cid k = created (this s))
       \<and> (\<forall>xs ys. pre (this s) \<noteq> None \<and> children (this s) = xs @ PreNode # ys \<and> PreNode \<notin> set xs \<longrightarrow>
              children (fst (renderMermaidDiagram_loaded (Some h) rid (this s))) =
                xs @ PreNode # ContainerNode (created (this s)) # ys)"
    using loaded_creates [where c = "this s" and h = h and rid = rid] by blast
  have 6: "\<forall>k. mermaidContainer (this s) = Some k \<longrightarrow>
         map_option cid (mermaidContainer (fst (renderMermaidDiagram_loaded (Some h) rid (this s)))) = Some (cid k)
       \<and> children (fst (renderMermaidDiagram_loaded (Some h) rid (this s))) = children (this s)
       \<and> created (fst (renderMermaidDiagram_loaded (Some h) rid (this s))) = created (this s)"
    using loaded_reuses [where c = "this s" and h = h and rid = rid] by blast
  from 1 inv 3 4 5 6 show ?thesis by blast
qed

theorem single_render_target_witness:
  "fresh (this (initial light_doc diagram_block))
   \<and> length (containers (children (this (run host_plain session_events (initial light_doc diagram_block))))) \<le> 1
   \<and> children (this (run host_plain session_events (initial light_doc diagram_block))) =
       [OtherNode 0, PreNode, ContainerNode 0, OtherNode 1]
   \<and> length (containers (children (this (run host_plain switch_away_events (initial light_doc diagram_block))))) \<le> 1
   \<and> children (this (run host_plain switch_away_events (initial light_doc diagram_block))) =
       [OtherNode 0, PreNode, OtherNode 1]"
proof -
  have h1: "\<And>focus c. mermaidContainer (host_plain focus c) = mermaidContainer c"
    by (simp add: host_plain_def)
  have h2: "\<And>focus c. containers (children (host_plain focus c)) = containers (children c)"
    by (simp add: host_plain_def)
  have f: "fresh (this (initial light_doc diagram_block))"
    by (simp add: fresh_def initial_def diagram_block_def containers_def)
  from single_render_target
         [where host = host_plain and evs = session_events and start = "initial light_doc diagram_block",
          OF h1 h2 f refl]
  have a: "length (containers (children (this (run host_plain session_events (initial light_doc diagram_block))))) \<le> 1"
    by blast
  from single_render_target
         [where host = host_plain and evs = switch_away_events and start = "initial light_doc diagram_block",
          OF h1 h2 f refl]
  have b: "length (containers (children (this (run host_plain switch_away_events (initial light_doc diagram_block))))) \<le> 1"
    by blast
  from f a b session_children switch_away_children show ?thesis
    by blast
qed

section \<open>A render that fails\<close>

lemma loaded_handle_container:
  "\<exists>k. mermaidContainer (fst (renderMermaidDiagram_loaded (Some h) rid c)) = Some k"
  by (auto simp: renderMermaidDiagram_loaded_def Let_def show_diagram_def set_innerHTML_def
                 create_container_def)

lemma loaded_handle_hidden: "source_hidden (fst (renderMermaidDiagram_loaded (Some h) rid c))"
  by (auto simp: source_hidden_def renderMermaidDiagram_loaded_def Let_def show_diagram_def
                 set_innerHTML_def create_container_def split: option.splits)

lemma rendered_rejected:
  "mermaidContainer c = Some k \<Longrightarrow>
   renderMermaidDiagram_rendered (RenderRejected (Some e)) c =
     Inr (c\<lparr>mermaidContainer := Some (k\<lparr>innerHTML := error_html (js_or_default (message e) ''Invalid syntax'')\<rparr>)\<rparr>)"
  by (simp add: renderMermaidDiagram_rendered_def set_innerHTML_def)

lemma error_html_contains: "sublist msg (error_html msg)"
  unfolding error_html_def sublist_def by (metis append.assoc)

lemma render_settled_rejected:
  assumes "i < length (awaiting_render s)" and "mermaidContainer (this s) = Some k"
  shows "this (render_settled i (RenderRejected (Some e)) s) =
           (this s)\<lparr>mermaidContainer :=
              Some (k\<lparr>innerHTML := error_html (js_or_default (message e) ''Invalid syntax'')\<rparr>)\<rparr>
       \<and> unhandled (render_settled i (RenderRejected (Some e)) s) = unhandled s"
  using assms by (simp add: render_settled_def Let_def rendered_rejected)

lemma render_settled_no_container:
  assumes "i < length (awaiting_render s)" and "mermaidContainer (this s) = None"
  shows "this (render_settled i out s) = this s
       \<and> unhandled (render_settled i out s) = unhandled s @ [TypeError]"
  using assms by (simp add: render_settled_def Let_def renderMermaidDiagram_rendered_def)

lemma render_settled_nullish:
  assumes "i < length (awaiting_render s)"
  shows "this (render_settled i (RenderRejected None) s) = this s
       \<and> unhandled (render_settled i (RenderRejected None) s) = unhandled s @ [TypeError]"
  using assms
  by (simp add: render_settled_def Let_def renderMermaidDiagram_rendered_def split: option.splits)

lemma diagram_mode_fresh: "fresh c \<Longrightarrow> diagram_mode c"
  by (simp add: fresh_def diagram_mode_def)

lemma diagram_mode_loaded: "diagram_mode c \<Longrightarrow> diagram_mode (fst (renderMermaidDiagram_loaded v rid c))"
proof (cases v)
  case None
  assume "diagram_mode c"
  then show ?thesis
    using None
    by (auto simp: renderMermaidDiagram_loaded_def diagram_mode_def source_hidden_def
             split: option.splits)
next
  case (Some h)
  have "source_hidden (fst (renderMermaidDiagram_loaded (Some h) rid c))"
    by (rule loaded_handle_hidden)
  then show ?thesis
    using Some by (simp add: diagram_mode_def split: option.splits)
qed

lemma diagram_mode_rendered:
  "diagram_mode c \<Longrightarrow> renderMermaidDiagram_rendered out c = Inr c' \<Longrightarrow> diagram_mode c'"
  by (auto simp: renderMermaidDiagram_rendered_def set_innerHTML_def diagram_mode_def source_hidden_def
           split: option.splits render_outcome.splits)

lemma diagram_mode_step:
  assumes "\<And>focus c. mermaidContainer (host focus c) = mermaidContainer c"
      and "diagram_mode (this s)"
  shows "diagram_mode (this (step host ev s))"
proof (cases ev)
  case (Highlight focus)
  have "mermaidContainer (host focus (cleanup (this s))) = None"
    by (simp add: assms(1) cleanup_def split: option.splits)
  then have "diagram_mode (host focus (cleanup (this s)))"
    by (simp add: diagram_mode_def)
  then show ?thesis
    using Highlight assms(2)
    by (simp add: highlight_def renderMermaidDiagram_start_def split: prod.splits)
next
  case (LoadResumed i now rnd)
  show ?thesis
  proof (cases "i < length (awaiting_load s)")
    case False
    then show ?thesis using LoadResumed assms(2) by (simp add: load_resumed_def)
  next
    case True
    show ?thesis
    proof (cases "awaiting_load s ! i")
      case (OnPromise p)
      then show ?thesis using LoadResumed True assms(2) by (simp add: load_resumed_def)
    next
      case (Ready v)
      have "this (load_resumed i now rnd s) = fst (renderMermaidDiagram_loaded v (render_id now rnd) (this s))"
        using True Ready
        by (simp add: load_resumed_def Let_def split: prod.splits option.splits)
      then show ?thesis
        using LoadResumed diagram_mode_loaded [OF assms(2)] by simp
    qed
  qed
next
  case (RenderSettled i out)
  then show ?thesis
    using assms(2) diagram_mode_rendered [OF assms(2)]
    by (auto simp: render_settled_def Let_def split: sum.splits)
next
  case Click
  then show ?thesis
    using assms(2)
    by (auto simp: click_def diagram_mode_def source_hidden_def split: option.splits)
next
  case (SetEmbeddedState e)
  then show ?thesis
    using assms(2) by (auto simp: diagram_mode_def source_hidden_def split: option.splits)
next
  case (SetProps e)
  then show ?thesis
    using assms(2) by (auto simp: diagram_mode_def source_hidden_def split: option.splits)
next
  case (Input v)
  then show ?thesis
    using assms(2) by (auto simp: diagram_mode_def source_hidden_def split: option.splits)
next
  case (SetDocument d)
  then show ?thesis using assms(2) by simp
next
  case (ImportSettled p out)
  then show ?thesis using assms(2) by (simp add: this_import_settled)
qed

lemma diagram_mode_run:
  assumes "\<And>focus c. mermaidContainer (host focus c) = mermaidContainer c"
  shows "diagram_mode (this s) \<Longrightarrow> diagram_mode (this (run host evs s))"
proof (induction evs arbitrary: s)
  case Nil
  then show ?case by simp
next
  case (Cons ev evs)
  show ?case
    using Cons.IH [OF diagram_mode_step [OF assms Cons.prems]] by simp
qed

lemma render_pending_state:
  "awaiting_render (run host_plain render_pending_events (initial light_doc diagram_block)) =
     [(7, ''mermaid-1700000000000-k3j9x2a'', ''graph TD; A-->B'')]
   \<and> mermaidContainer (this (run host_plain render_pending_events (initial light_doc diagram_block))) =
       Some \<lparr> cid = 0, className = ''o_mermaid_container'',
              cssText = ''display: flex; justify-content: center; padding: 1rem; cursor: pointer;'',
              display = ''flex'', innerHTML = [], click_listeners = 1 \<rparr>
   \<and> pre (this (run host_plain render_pending_events (initial light_doc diagram_block))) =
       Some \<lparr> pre_display = ''none'', textContent = [] \<rparr>
   \<and> textarea (this (run host_plain render_pending_events (initial light_doc diagram_block))) =
       Some \<lparr> ta_value = [], ta_display = ''none'' \<rparr>"
  by (simp add: render_pending_events_def diagram_block_def eval_defs)

text \<open>
  One render with content that is not blank, run from the loader's handle to the rejection
  with nothing in between.
\<close>

lemma render_failure_uninterrupted:
  assumes "trim (resolveValue c) \<noteq> []"
  shows "\<exists>c1 c2 k.
           renderMermaidDiagram_loaded (Some h) rid c = (c1, Some (h, rid, trim (resolveValue c)))
         \<and> renderMermaidDiagram_rendered (RenderRejected (Some e)) c1 = Inr c2
         \<and> mermaidContainer c2 = Some k
         \<and> innerHTML k = error_html (js_or_default (message e) ''Invalid syntax'')
         \<and> source_hidden c2
         \<and> display k = ''flex''"
proof -
  obtain c1 req where l: "renderMermaidDiagram_loaded (Some h) rid c = (c1, req)"
    by (cases "renderMermaidDiagram_loaded (Some h) rid c")
  have req: "req = Some (h, rid, trim (resolveValue c))"
    using l assms by (auto simp: renderMermaidDiagram_loaded_def Let_def)
  obtain k1 where k1: "mermaidContainer c1 = Some k1"
    using loaded_handle_container [of h rid c] l by auto
  have d1: "display k1 = ''flex''"
    using l k1 assms
    by (auto simp: renderMermaidDiagram_loaded_def Let_def show_diagram_def create_container_def
             split: if_splits)
  have h1: "source_hidden c1"
    using loaded_handle_hidden [of h rid c] l by simp
  show ?thesis
    apply (rule exI [of _ c1])
    apply (rule exI [of _ "c1\<lparr>mermaidContainer := Some (k1\<lparr>innerHTML := error_html (js_or_default (message e) ''Invalid syntax'')\<rparr>)\<rparr>"])
    apply (rule exI [of _ "k1\<lparr>innerHTML := error_html (js_or_default (message e) ''Invalid syntax'')\<rparr>"])
    using l req k1 d1 h1 rendered_rejected [OF k1, of e]
    by (simp add: source_hidden_def)
qed

text \<open>
  The claim that every failing render puts the error message into the container and leaves
  \<open>pre\<close> and the textarea hidden fails. A render is waiting for \<open>mermaid.render\<close>; the
  language is switched to plain text and \<open>highlight\<close> runs, which removes the container
  and shows \<open>pre\<close> and the textarea again; then the render is rejected: no container, no
  message anywhere, both elements visible, and the exception of the \<open>catch\<close> block is
  nobody's. Also, with the container in place, a rejection with \<open>undefined\<close> writes
  nothing and throws.
\<close>

theorem render_failure_counterexample:
  "mermaidContainer (this (run host_plain stale_reject_events (initial light_doc diagram_block))) = None
   \<and> pre (this (run host_plain stale_reject_events (initial light_doc diagram_block))) =
       Some \<lparr> pre_display = [], textContent = ''graph TD; A-->B'' \<rparr>
   \<and> textarea (this (run host_plain stale_reject_events (initial light_doc diagram_block))) =
       Some \<lparr> ta_value = [], ta_display = [] \<rparr>
   \<and> unhandled (run host_plain stale_reject_events (initial light_doc diagram_block)) = [TypeError]
   \<and> map_option innerHTML
         (mermaidContainer (this (run host_plain nullish_reject_events (initial light_doc diagram_block)))) =
       Some []
   \<and> unhandled (run host_plain nullish_reject_events (initial light_doc diagram_block)) = [TypeError]"
  by (simp add: stale_reject_events_def nullish_reject_events_def render_pending_events_def
        diagram_block_def eval_defs)

text \<open>
  C6, as the code has it. In every state reached from a component without a container
  (the host's own highlight leaving the container reference alone), when a pending render is
  rejected with a failure object and the component still refers to a container, the
  container's content becomes the inline error message built around the failure's message,
  or around \<open>Invalid syntax\<close> when the failure has no message or an empty one; nothing
  else of the component changes, no exception escapes, and \<open>pre\<close> and the textarea (each
  where it exists) are hidden.
\<close>

theorem render_failure_shows_error:
  assumes "\<And>focus c. mermaidContainer (host focus c) = mermaidContainer c"
      and "fresh (this start)"
      and "s = run host evs start"
      and "i < length (awaiting_render s)"
      and "mermaidContainer (this s) = Some k"
  shows "this (render_settled i (RenderRejected (Some e)) s) =
           (this s)\<lparr>mermaidContainer :=
              Some (k\<lparr>innerHTML :=
                error_html (case message e of None \<Rightarrow> ''Invalid syntax''
                            | Some m \<Rightarrow> if m = [] then ''Invalid syntax'' else m)\<rparr>)\<rparr>
   \<and> sublist (case message e of None \<Rightarrow> ''Invalid syntax''
               | Some m \<Rightarrow> if m = [] then ''Invalid syntax'' else m)
        (error_html (case message e of None \<Rightarrow> ''Invalid syntax''
                     | Some m \<Rightarrow> if m = [] then ''Invalid syntax'' else m))
   \<and> source_hidden (this (render_settled i (RenderRejected (Some e)) s))
   \<and> unhandled (render_settled i (RenderRejected (Some e)) s) = unhandled s"
proof -
  define msg where "msg = (case message e of None \<Rightarrow> ''Invalid syntax''
                         | Some m \<Rightarrow> if m = [] then ''Invalid syntax'' else m)"
  have m: "js_or_default (message e) ''Invalid syntax'' = msg"
    by (auto simp: js_or_default_def msg_def split: option.splits)
  have inv: "diagram_mode (this s)"
    unfolding assms(3)
    by (rule diagram_mode_run [OF assms(1)]) (rule diagram_mode_fresh [OF assms(2)])
  then have hid: "source_hidden (this s)"
    using assms(5) by (simp add: diagram_mode_def)
  have w: "this (render_settled i (RenderRejected (Some e)) s) =
           (this s)\<lparr>mermaidContainer := Some (k\<lparr>innerHTML := error_html msg\<rparr>)\<rparr>"
    and u: "unhandled (render_settled i (RenderRejected (Some e)) s) = unhandled s"
    using render_settled_rejected [OF assms(4,5), of e] by (simp_all add: m)
  have hid': "source_hidden (this (render_settled i (RenderRejected (Some e)) s))"
    using hid unfolding w by (simp add: source_hidden_def)
  from w error_html_contains [of msg] hid' u show ?thesis
    unfolding msg_def by blast
qed

theorem render_failure_shows_error_witness:
  \<open>fresh (this (initial light_doc diagram_block))
   \<and> awaiting_render (run host_plain render_pending_events (initial light_doc diagram_block)) =
       [(7, ''mermaid-1700000000000-k3j9x2a'', ''graph TD; A-->B'')]
   \<and> map_option innerHTML (mermaidContainer (this
         (render_settled 0 (RenderRejected (Some \<lparr>message = Some ''Parse error on line 1''\<rparr>))
            (run host_plain render_pending_events (initial light_doc diagram_block))))) =
       Some (''<div style="color: #dc3545; padding: 0.5rem;">'' @ [CHR 0x0A] @
             ''                <strong>Mermaid syntax error:</strong><br>'' @ [CHR 0x0A] @
             ''                <small>Parse error on line 1</small>'' @ [CHR 0x0A] @
             ''            </div>'')
   \<and> map_option innerHTML (mermaidContainer (this
         (render_settled 0 (RenderRejected (Some \<lparr>message = None\<rparr>))
            (run host_plain render_pending_events (initial light_doc diagram_block))))) =
       Some (''<div style="color: #dc3545; padding: 0.5rem;">'' @ [CHR 0x0A] @
             ''                <strong>Mermaid syntax error:</strong><br>'' @ [CHR 0x0A] @
             ''                <small>Invalid syntax</small>'' @ [CHR 0x0A] @
             ''            </div>'')
   \<and> pre (this
         (render_settled 0 (RenderRejected (Some \<lparr>message = None\<rparr>))
            (run host_plain render_pending_events (initial light_doc diagram_block)))) =
       Some \<lparr> pre_display = ''none'', textContent = [] \<rparr>
   \<and> textarea (this
         (render_settled 0 (RenderRejected (Some \<lparr>message = None\<rparr>))
            (run host_plain render_pending_events (initial light_doc diagram_block)))) =
       Some \<lparr> ta_value = [], ta_display = ''none'' \<rparr>\<close>
proof -
  let ?s = "run host_plain render_pending_events (initial light_doc diagram_block)"
  let ?k = "\<lparr> cid = 0, className = ''o_mermaid_container'',
              cssText = ''display: flex; justify-content: center; padding: 1rem; cursor: pointer;'',
              display = ''flex'', innerHTML = [], click_listeners = 1 \<rparr>"
  have h: "\<And>focus c. mermaidContainer (host_plain focus c) = mermaidContainer c"
    by (simp add: host_plain_def)
  have f: "fresh (this (initial light_doc diagram_block))"
    by (simp add: fresh_def initial_def diagram_block_def containers_def)
  have i: "0 < length (awaiting_render ?s)"
    using render_pending_state by simp
  have k: "mermaidContainer (this ?s) = Some ?k"
    using render_pending_state by simp
  from render_failure_shows_error
         [where host = host_plain and start = "initial light_doc diagram_block"
            and evs = render_pending_events and e = "\<lparr>message = Some ''Parse error on line 1''\<rparr>",
          OF h f refl i k]
  have a: "this (render_settled 0 (RenderRejected (Some \<lparr>message = Some ''Parse error on line 1''\<rparr>)) ?s) =
           (this ?s)\<lparr>mermaidContainer := Some (?k\<lparr>innerHTML := error_html ''Parse error on line 1''\<rparr>)\<rparr>"
    by simp
  from render_failure_shows_error
         [where host = host_plain and start = "initial light_doc diagram_block"
            and evs = render_pending_events and e = "\<lparr>message = None\<rparr>",
          OF h f refl i k]
  have b: "this (render_settled 0 (RenderRejected (Some \<lparr>message = None\<rparr>)) ?s) =
           (this ?s)\<lparr>mermaidContainer := Some (?k\<lparr>innerHTML := error_html ''Invalid syntax''\<rparr>)\<rparr>"
    by simp
  show ?thesis
    unfolding a b using f render_pending_state by (simp add: error_html_def)
qed

section \<open>A load that fails\<close>

lemma fetch_failure_retries:
  assumes "loader_inv g" and "p \<in> set (pending g)"
  shows "fst (loadMermaid_resume p d (ImportRejected e) g) = None
       \<and> console_error (snd (loadMermaid_resume p d (ImportRejected e) g)) =
           console_error g @ [(''Failed to load Mermaid:'', Thrown e)]
       \<and> mermaidLoadingPromise (snd (loadMermaid_resume p d (ImportRejected e) g)) = None
       \<and> mermaidModule (snd (loadMermaid_resume p d (ImportRejected e) g)) = None
       \<and> fetched (snd (loadMermaid (snd (loadMermaid_resume p d (ImportRejected e) g)))) =
           fetched g @ [MERMAID_CDN_URL]"
  using assms
  by (auto simp: loader_inv_def loadMermaid_resume_def load_failed_def loadMermaid_def Let_def)

text \<open>
  C2. A load whose \<open>initialize\<close> call throws is logged, clears the in-flight marker and
  gives \<open>null\<close> to its callers, but the module variable was assigned before the call and
  is not reset: the next call of the loader returns that module as cached and starts no
  fetch; from the initial state, one URL has been fetched after both calls. (Lemma
  \<open>fetch_failure_retries\<close> is the rejected import, where the next call does start a
  fresh fetch.)
\<close>

theorem init_failure_keeps_module:
  "fst (loadMermaid_resume p d (ImportFulfilled (Some h) (Some e)) g) = None
   \<and> console_error (snd (loadMermaid_resume p d (ImportFulfilled (Some h) (Some e)) g)) =
       console_error g @ [(''Failed to load Mermaid:'', Thrown e)]
   \<and> mermaidLoadingPromise (snd (loadMermaid_resume p d (ImportFulfilled (Some h) (Some e)) g)) = None
   \<and> loadMermaid (snd (loadMermaid_resume p d (ImportFulfilled (Some h) (Some e)) g)) =
       (Cached h, snd (loadMermaid_resume p d (ImportFulfilled (Some h) (Some e)) g))
   \<and> fst (loadMermaid (snd (loadMermaid_resume 0 d (ImportFulfilled (Some h) (Some e))
                             (snd (loadMermaid loader0))))) = Cached h
   \<and> fetched (snd (loadMermaid (snd (loadMermaid_resume 0 d (ImportFulfilled (Some h) (Some e))
                                  (snd (loadMermaid loader0)))))) = [MERMAID_CDN_URL]"
  by (simp add: loadMermaid_resume_def load_failed_def loadMermaid_def loader0_def Let_def)

section \<open>When the theme is computed\<close>

lemma library_theme_render: "library_theme (cs @ [Render h rid content]) = library_theme cs"
  by (induction cs rule: library_theme.induct) simp_all

lemma library_theme_initialize: "library_theme (cs @ [Initialize h cfg]) = Some (themeOptions cfg)"
  by (induction cs rule: library_theme.induct) simp_all

lemma settle_initializes:
  assumes "p \<in> set (pending (globals s))"
  shows "lib_calls (globals (import_settled p (ImportFulfilled (Some h) ie) s)) =
           lib_calls (globals s) @ [Initialize h (initialize_options (doc s))]"
  using assms
  by (simp add: import_settled_def loadMermaid_resume_def load_failed_def Let_def split: option.splits)

lemma other_events_keep_theme:
  assumes "\<not> is_settle ev"
  shows "library_theme (lib_calls (globals (step host ev s))) = library_theme (lib_calls (globals s))"
proof (cases ev)
  case (Highlight focus)
  then show ?thesis
    by (auto simp: highlight_def renderMermaidDiagram_start_def loadMermaid_def Let_def
             split: option.splits)
next
  case (LoadResumed i now rnd)
  then show ?thesis
    by (auto simp: load_resumed_def Let_def library_theme_render
             split: prod.splits load_wait.splits option.splits)
next
  case (RenderSettled i out)
  then show ?thesis
    by (auto simp: render_settled_def Let_def split: sum.splits)
next
  case (ImportSettled p out)
  then show ?thesis using assms by simp
qed simp_all

lemma loaded_keeps_theme_step:
  assumes "sys_inv s" and "mermaidModule (globals s) = Some h"
  shows "library_theme (lib_calls (globals (step host ev s))) = library_theme (lib_calls (globals s))"
proof (cases "is_settle ev")
  case False
  then show ?thesis by (rule other_events_keep_theme)
next
  case True
  then obtain p out where ev: "ev = ImportSettled p out"
    by (cases ev) simp_all
  have "pending (globals s) = []"
    using assms by (cases "pending (globals s)") (auto simp: sys_inv_def loader_inv_def)
  then show ?thesis
    by (simp add: ev import_settled_def)
qed

lemma loaded_keeps_theme_run:
  "sys_inv s \<Longrightarrow> mermaidModule (globals s) = Some h \<Longrightarrow>
   library_theme (lib_calls (globals (run host evs s))) = library_theme (lib_calls (globals s))"
proof (induction evs arbitrary: s)
  case Nil
  then show ?case by simp
next
  case (Cons ev evs)
  have a: "sys_inv (step host ev s)"
    using Cons.prems(1) by (rule sys_inv_step)
  have b: "mermaidModule (globals (step host ev s)) = Some h"
    using loaded_stays_step [OF Cons.prems] by simp
  show ?case
    using Cons.IH [OF a b] loaded_keeps_theme_step [OF Cons.prems] by simp
qed

lemma theme_change_state:
  "doc (run host_plain theme_change_events (initial light_doc diagram_block)) = dark_doc
   \<and> lib_calls (globals (run host_plain theme_change_events (initial light_doc diagram_block))) =
       [Initialize 7 (initialize_options light_doc),
        Render 7 ''mermaid-1700000000000-k3j9x2a'' ''graph TD; A-->B'',
        Render 7 ''mermaid-1700000000001-q8w2e4r'' ''graph TD; A-->B'']"
  by (simp add: theme_change_events_def first_render_events_def render_pending_events_def diagram_block_def eval_defs)

lemma light_primary:
  "map_of (themeVariables (getMermaidThemeConfig light_doc)) ''primaryColor'' = Some ''#714B67''"
  by (simp add: getMermaidThemeConfig_def getOdooTheme_def cssVar_def light_doc_def Let_def
        cookie_color_scheme_def js_split_def startsWith_def index_opt_def js_or_def js_or_default_def
        truthy_def trim_def)

lemma dark_primary:
  "map_of (themeVariables (getMermaidThemeConfig dark_doc)) ''primaryColor'' = Some ''#123456''"
  by (simp add: getMermaidThemeConfig_def getOdooTheme_def cssVar_def dark_doc_def Let_def
        js_or_def js_or_default_def truthy_def trim_def is_ws_def)

lemma run_append: "run host (xs @ ys) s = run host ys (run host xs s)"
  by (induction xs arbitrary: s) simp_all

lemma first_call_pending:
  "pending (globals (run host_plain [Highlight False] (initial light_doc diagram_block))) = [0]
   \<and> lib_calls (globals (run host_plain [Highlight False] (initial light_doc diagram_block))) = []
   \<and> doc (run host_plain [Highlight False] (initial light_doc diagram_block)) = light_doc"
  by (simp add: diagram_block_def eval_defs)

lemma first_render_state:
  "mermaidModule (globals (run host_plain first_render_events (initial light_doc diagram_block))) = Some 7
   \<and> lib_calls (globals (run host_plain first_render_events (initial light_doc diagram_block))) =
       [Initialize 7 (initialize_options light_doc),
        Render 7 ''mermaid-1700000000000-k3j9x2a'' ''graph TD; A-->B'']"
  by (simp add: first_render_events_def render_pending_events_def diagram_block_def eval_defs)

text \<open>
  The claim that every render passes the library a theme computed from the ambient state of
  that moment fails: a block is rendered under the light theme, the document turns dark, the
  block is rendered again. The second render gives the library only an id and the content;
  the one theme it ever received is the light one, which is not the theme of the document.
\<close>

theorem theme_recomputed_counterexample:
  "doc (run host_plain theme_change_events (initial light_doc diagram_block)) = dark_doc
   \<and> lib_calls (globals (run host_plain theme_change_events (initial light_doc diagram_block))) =
       [Initialize 7 (initialize_options light_doc),
        Render 7 ''mermaid-1700000000000-k3j9x2a'' ''graph TD; A-->B'',
        Render 7 ''mermaid-1700000000001-q8w2e4r'' ''graph TD; A-->B'']
   \<and> library_theme (lib_calls (globals (run host_plain theme_change_events (initial light_doc diagram_block)))) =
       Some (getMermaidThemeConfig light_doc)
   \<and> getMermaidThemeConfig light_doc \<noteq> getMermaidThemeConfig dark_doc"
proof -
  have "getMermaidThemeConfig light_doc \<noteq> getMermaidThemeConfig dark_doc"
    using light_primary dark_primary by auto
  then show ?thesis
    using theme_change_state by (simp add: initialize_options_def)
qed

text \<open>
  C1, as the code has it. The theme is computed by the loader, from the ambient state of
  the moment the fetched module is initialized, and passed in that one \<open>initialize\<close>
  call. No other event gives the library a theme: a render passes an id and the trimmed
  content. So from the moment a module is cached, the theme the library works with never
  changes, whatever happens to the document.
\<close>

theorem theme_fixed_at_load:
  assumes "s = run host evs (initial d c)"
  shows "themeOptions (initialize_options (doc s)) = getMermaidThemeConfig (doc s)
   \<and> (\<forall>p \<in> set (pending (globals s)). \<forall>h ie.
         lib_calls (globals (import_settled p (ImportFulfilled (Some h) ie) s)) =
           lib_calls (globals s) @ [Initialize h (initialize_options (doc s))])
   \<and> (\<forall>ev. \<not> is_settle ev \<longrightarrow>
         library_theme (lib_calls (globals (step host ev s))) = library_theme (lib_calls (globals s)))
   \<and> (\<forall>h. mermaidModule (globals s) = Some h \<longrightarrow>
         (\<forall>evs'. library_theme (lib_calls (globals (run host evs' s))) =
                  library_theme (lib_calls (globals s))))"
proof -
  have inv: "sys_inv s"
    unfolding assms by (rule sys_inv_run) (rule sys_inv_initial)
  have 1: "themeOptions (initialize_options (doc s)) = getMermaidThemeConfig (doc s)"
    by (simp add: initialize_options_def)
  have 2: "\<forall>p \<in> set (pending (globals s)). \<forall>h ie.
         lib_calls (globals (import_settled p (ImportFulfilled (Some h) ie) s)) =
           lib_calls (globals s) @ [Initialize h (initialize_options (doc s))]"
    using settle_initializes by blast
  have 3: "\<forall>ev. \<not> is_settle ev \<longrightarrow>
         library_theme (lib_calls (globals (step host ev s))) = library_theme (lib_calls (globals s))"
    using other_events_keep_theme by blast
  have 4: "\<forall>h. mermaidModule (globals s) = Some h \<longrightarrow>
         (\<forall>evs'. library_theme (lib_calls (globals (run host evs' s))) =
                  library_theme (lib_calls (globals s)))"
    using loaded_keeps_theme_run [OF inv] by blast
  from 1 2 3 4 show ?thesis by blast
qed

theorem theme_fixed_at_load_witness:
  "lib_calls (globals (import_settled 0 (ImportFulfilled (Some 7) None)
       (run host_plain [Highlight False] (initial light_doc diagram_block)))) =
     [Initialize 7 (initialize_options light_doc)]
   \<and> library_theme (lib_calls (globals (step host_plain (SetDocument dark_doc)
       (run host_plain [Highlight False] (initial light_doc diagram_block))))) = None
   \<and> library_theme (lib_calls (globals
       (run host_plain [SetDocument dark_doc, Highlight False, LoadResumed 0 ''1700000000001'' ''q8w2e4r'']
          (run host_plain first_render_events (initial light_doc diagram_block))))) =
     Some (getMermaidThemeConfig light_doc)"
proof -
  have n: "\<not> is_settle (SetDocument dark_doc)"
    by simp
  from theme_fixed_at_load [OF refl, of host_plain "[Highlight False]" light_doc diagram_block]
  have a: "lib_calls (globals (import_settled 0 (ImportFulfilled (Some 7) None)
       (run host_plain [Highlight False] (initial light_doc diagram_block)))) =
     [Initialize 7 (initialize_options light_doc)]"
    and b: "library_theme (lib_calls (globals (step host_plain (SetDocument dark_doc)
       (run host_plain [Highlight False] (initial light_doc diagram_block))))) = None"
    using first_call_pending n by auto
  from theme_fixed_at_load [OF refl, of host_plain first_render_events light_doc diagram_block]
  have "library_theme (lib_calls (globals
       (run host_plain [SetDocument dark_doc, Highlight False, LoadResumed 0 ''1700000000001'' ''q8w2e4r'']
          (run host_plain first_render_events (initial light_doc diagram_block))))) =
     library_theme (lib_calls (globals (run host_plain first_render_events (initial light_doc diagram_block))))"
    using first_render_state by blast
  then have c: "library_theme (lib_calls (globals
       (run host_plain [SetDocument dark_doc, Highlight False, LoadResumed 0 ''1700000000001'' ''q8w2e4r'']
          (run host_plain first_render_events (initial light_doc diagram_block))))) =
     Some (getMermaidThemeConfig light_doc)"
    using first_render_state by (simp add: initialize_options_def)
  from a b c show ?thesis by blast
qed

section \<open>Blank content\<close>

lemma blank_block_facts:
  "resolveLanguageId blank_block = ''mermaid''" "trim (resolveValue blank_block) = []"
  by (simp_all add: blank_block_def resolveLanguageId_def resolveValue_def js_or_def js_or_default_def
        truthy_def trim_def is_ws_def)

text \<open>
  The claim that the loader is invoked only when the trimmed content is not empty, and that
  blank content always shows the placeholder, fails: a highlight call on a block whose
  content is two spaces starts the fetch of the library; and when that load fails, the
  component has no container, hence no placeholder, and \<open>pre\<close> holds the load-failure
  text.
\<close>

theorem blank_content_loader_counterexample:
  "resolveLanguageId blank_block = ''mermaid''
   \<and> trim (resolveValue blank_block) = []
   \<and> fetched (globals (step host_plain (Highlight False) (initial light_doc blank_block))) = [MERMAID_CDN_URL]
   \<and> awaiting_load (step host_plain (Highlight False) (initial light_doc blank_block)) = [OnPromise 0]
   \<and> mermaidContainer (this (run host_plain failed_load_events (initial light_doc blank_block))) = None
   \<and> map_option textContent (pre (this (run host_plain failed_load_events (initial light_doc blank_block)))) =
       Some ''Failed to load Mermaid library''
   \<and> lib_calls (globals (run host_plain failed_load_events (initial light_doc blank_block))) = []"
  by (simp add: blank_block_facts) (simp add: failed_load_events_def blank_block_def eval_defs)

lemma loaded_blank:
  assumes "trim (resolveValue c) = []"
  shows "\<exists>c' k. renderMermaidDiagram_loaded (Some h) rid c = (c', None)
           \<and> mermaidContainer c' = Some k
           \<and> innerHTML k = placeholder_html
           \<and> display k = ''flex''
           \<and> map_option pre_display (pre c') = map_option (\<lambda>p. ''none'') (pre c)
           \<and> map_option ta_display (textarea c') = map_option (\<lambda>t. ''none'') (textarea c)"
  using assms
  by (auto simp: renderMermaidDiagram_loaded_def Let_def show_diagram_def set_innerHTML_def
                 create_container_def option.map_comp o_def)

lemma load_resumed_blank:
  assumes "trim (resolveValue (this s)) = []" and "i < length (awaiting_load s)"
  shows "lib_calls (globals (load_resumed i now rnd s)) = lib_calls (globals s)
       \<and> awaiting_render (load_resumed i now rnd s) = awaiting_render s"
  using assms
  by (auto simp: load_resumed_def renderMermaidDiagram_loaded_def Let_def
           split: load_wait.splits option.splits)

text \<open>
  C4, as the code has it. A highlight call for \<open>mermaid\<close> calls the loader first, whatever
  the content. When the loader gives the module and the trimmed content is empty, the
  container shows the placeholder message, \<open>pre\<close> and the textarea are hidden, and the
  renderer is not called: the calls made on the library and the suspended renders stay as
  they were. When the loader gives \<open>null\<close>, the load-failure text is written to \<open>pre\<close>
  and nothing else happens.
\<close>

theorem blank_content_placeholder:
  "(resolveLanguageId (this s) = ''mermaid'' \<longrightarrow>
      highlight host focus s =
        s\<lparr>globals := snd (loadMermaid (globals s)),
          awaiting_load := awaiting_load s @ [wait_for (fst (loadMermaid (globals s)))]\<rparr>)
   \<and> (trim (resolveValue c) = [] \<longrightarrow>
        (\<exists>c' k. renderMermaidDiagram_loaded (Some h) rid c = (c', None)
           \<and> mermaidContainer c' = Some k
           \<and> innerHTML k = placeholder_html
           \<and> display k = ''flex''
           \<and> map_option pre_display (pre c') = map_option (\<lambda>p. ''none'') (pre c)
           \<and> map_option ta_display (textarea c') = map_option (\<lambda>t. ''none'') (textarea c)))
   \<and> (trim (resolveValue (this s)) = [] \<and> i < length (awaiting_load s) \<longrightarrow>
        lib_calls (globals (load_resumed i now rnd s)) = lib_calls (globals s)
        \<and> awaiting_render (load_resumed i now rnd s) = awaiting_render s)
   \<and> renderMermaidDiagram_loaded None rid c =
        (c\<lparr>pre := map_option (\<lambda>p. p\<lparr>textContent := ''Failed to load Mermaid library''\<rparr>) (pre c)\<rparr>, None)"
proof -
  have 1: "resolveLanguageId (this s) = ''mermaid'' \<longrightarrow>
      highlight host focus s =
        s\<lparr>globals := snd (loadMermaid (globals s)),
          awaiting_load := awaiting_load s @ [wait_for (fst (loadMermaid (globals s)))]\<rparr>"
    by (simp add: highlight_def renderMermaidDiagram_start_def split: prod.splits)
  have 4: "renderMermaidDiagram_loaded None rid c =
        (c\<lparr>pre := map_option (\<lambda>p. p\<lparr>textContent := ''Failed to load Mermaid library''\<rparr>) (pre c)\<rparr>, None)"
    by (simp add: renderMermaidDiagram_loaded_def)
  from 1 loaded_blank [of c h rid] load_resumed_blank [of s i now rnd] 4
  show ?thesis by blast
qed


lemma blank_loaded_state:
  "awaiting_load (run host_plain [Highlight False, ImportSettled 0 (ImportFulfilled (Some 7) None)]
                    (initial light_doc blank_block)) = [Ready (Some 7)]
   \<and> this (run host_plain [Highlight False, ImportSettled 0 (ImportFulfilled (Some 7) None)]
                    (initial light_doc blank_block)) = blank_block
   \<and> lib_calls (globals (run host_plain [Highlight False, ImportSettled 0 (ImportFulfilled (Some 7) None)]
                    (initial light_doc blank_block))) = [Initialize 7 (initialize_options light_doc)]"
  by (simp add: blank_block_facts initial_def loader0_def highlight_def renderMermaidDiagram_start_def
        loadMermaid_def wait_for_def import_settled_def loadMermaid_resume_def wake_def Let_def)

theorem blank_content_placeholder_witness:
  "fetched (globals (highlight host_plain False (initial light_doc blank_block))) = [MERMAID_CDN_URL]
   \<and> (\<exists>c' k. renderMermaidDiagram_loaded (Some 7) ''mermaid-1700000000000-k3j9x2a'' blank_block = (c', None)
           \<and> mermaidContainer c' = Some k
           \<and> innerHTML k = placeholder_html)
   \<and> lib_calls (globals (load_resumed 0 ''1700000000000'' ''k3j9x2a''
        (run host_plain [Highlight False, ImportSettled 0 (ImportFulfilled (Some 7) None)]
           (initial light_doc blank_block)))) = [Initialize 7 (initialize_options light_doc)]"
proof -
  let ?s = "run host_plain [Highlight False, ImportSettled 0 (ImportFulfilled (Some 7) None)]
              (initial light_doc blank_block)"
  have l: "resolveLanguageId (this (initial light_doc blank_block)) = ''mermaid''"
    by (simp add: initial_def blank_block_facts)
  have b: "trim (resolveValue blank_block) = []"
    by (rule blank_block_facts)
  have t: "trim (resolveValue (this ?s)) = [] \<and> 0 < length (awaiting_load ?s)"
    using blank_loaded_state b by simp
  from blank_content_placeholder
         [of "initial light_doc blank_block" host_plain False blank_block 7
             "''mermaid-1700000000000-k3j9x2a''"]
  have 1: "highlight host_plain False (initial light_doc blank_block) =
        (initial light_doc blank_block)
          \<lparr>globals := snd (loadMermaid (globals (initial light_doc blank_block))),
            awaiting_load := awaiting_load (initial light_doc blank_block)
               @ [wait_for (fst (loadMermaid (globals (initial light_doc blank_block))))]\<rparr>"
    and 2: "\<exists>c' k. renderMermaidDiagram_loaded (Some 7) ''mermaid-1700000000000-k3j9x2a'' blank_block = (c', None)
           \<and> mermaidContainer c' = Some k
           \<and> innerHTML k = placeholder_html"
    using l b by blast+
  from blank_content_placeholder [of ?s _ _ _ _ _ 0 "''1700000000000''" "''k3j9x2a''"]
  have 3: "lib_calls (globals (load_resumed 0 ''1700000000000'' ''k3j9x2a'' ?s)) = lib_calls (globals ?s)"
    using t by blast
  have f: "fetched (globals (highlight host_plain False (initial light_doc blank_block))) = [MERMAID_CDN_URL]"
    unfolding 1 by (simp add: initial_def loader0_def loadMermaid_def)
  from f 2 3 blank_loaded_state show ?thesis
    by simp
qed

end
